theory Spec2Isabelle
  imports Complex_Main "HOL-Library.Product_Lexorder" "HOL-Library.AList"
begin

section \<open>Python strings\<close>

text \<open>
  A Python \<open>str\<close> is modelled as a \<open>string\<close>: a list of characters with code points
  below 256. On that range the string methods used by the two source files are written
  out below as Python defines them (\<open>str.isspace\<close>, \<open>str.lower\<close>, \<open>str.upper\<close>,
  \<open>str.strip\<close>, \<open>str.startswith\<close>, \<open>in\<close>).
\<close>

definition code :: "char \<Rightarrow> nat" where
  "code c = of_char c"

definition is_ascii_lower :: "char \<Rightarrow> bool" where
  "is_ascii_lower c = (97 \<le> code c \<and> code c \<le> 122)"

definition is_ascii_upper :: "char \<Rightarrow> bool" where
  "is_ascii_upper c = (65 \<le> code c \<and> code c \<le> 90)"

definition is_ascii_digit :: "char \<Rightarrow> bool" where
  "is_ascii_digit c = (48 \<le> code c \<and> code c \<le> 57)"

text \<open>\<open>str.isspace\<close> on code points below 256: TAB..CR, FS..US, space, NEL and NBSP.\<close>

definition py_isspace :: "char \<Rightarrow> bool" where
  "py_isspace c = ((9 \<le> code c \<and> code c \<le> 13) \<or> (28 \<le> code c \<and> code c \<le> 32)
                    \<or> code c = 133 \<or> code c = 160)"

text \<open>
  \<open>str.lower\<close>, one character: \<open>A..Z\<close> and the Latin-1 capitals \<open>0xC0..0xDE\<close>
  (without the multiplication sign \<open>0xD7\<close>) move up by 32; everything else stays.
\<close>

definition lower_char :: "char \<Rightarrow> char" where
  "lower_char c =
     (if is_ascii_upper c \<or> (192 \<le> code c \<and> code c \<le> 222 \<and> code c \<noteq> 215)
      then char_of (code c + 32) else c)"

definition py_lower :: "string \<Rightarrow> string" where
  "py_lower s = map lower_char s"

text \<open>\<open>s.lstrip(chars)\<close>, \<open>s.rstrip(chars)\<close> and \<open>s.strip(chars)\<close>, the set of
  characters given as a predicate.\<close>

definition lstrip_where :: "(char \<Rightarrow> bool) \<Rightarrow> string \<Rightarrow> string" where
  "lstrip_where P s = dropWhile P s"

definition rstrip_where :: "(char \<Rightarrow> bool) \<Rightarrow> string \<Rightarrow> string" where
  "rstrip_where P s = rev (dropWhile P (rev s))"

definition strip_where :: "(char \<Rightarrow> bool) \<Rightarrow> string \<Rightarrow> string" where
  "strip_where P s = rstrip_where P (lstrip_where P s)"

definition py_strip :: "string \<Rightarrow> string" where
  "py_strip s = strip_where py_isspace s"


section \<open>\<open>elgato_prompter_text.py\<close>: \<open>slugify\<close>\<close>







section \<open>More of Python's \<open>str\<close>, \<open>int\<close> and \<open>pathlib\<close>\<close>

text \<open>
  \<open>str.upper\<close>, one character: \<open>a..z\<close> and the Latin-1 small letters \<open>0xE0..0xFE\<close>
  (without the division sign \<open>0xF7\<close>) move down by 32, and \<open>0xDF\<close> becomes \<open>SS\<close>.
  The capitals of \<open>0xB5\<close> and \<open>0xFF\<close> lie beyond code point 255; the model keeps these
  two characters, and no statement below depends on them.
\<close>

definition upper_char :: "char \<Rightarrow> string" where
  "upper_char c =
     (if is_ascii_lower c \<or> (224 \<le> code c \<and> code c \<le> 254 \<and> code c \<noteq> 247)
      then [char_of (code c - 32)]
      else if code c = 223 then ''SS'' else [c])"

definition py_upper :: "string \<Rightarrow> string" where
  "py_upper s = concat (map upper_char s)"

definition startswith :: "string \<Rightarrow> string \<Rightarrow> bool" where
  "startswith s p = (take (length p) s = p)"

definition endswith :: "string \<Rightarrow> string \<Rightarrow> bool" where
  "endswith s p = (length p \<le> length s \<and> drop (length s - length p) s = p)"

text \<open>\<open>sub in s\<close> for two strings.\<close>

fun contains :: "string \<Rightarrow> string \<Rightarrow> bool" where
  "contains [] sub = (sub = [])"
| "contains (c # cs) sub = (startswith (c # cs) sub \<or> contains cs sub)"

text \<open>\<open>s.split(sep)\<close> for a separator of one character: never an empty list.\<close>

fun split_on :: "char \<Rightarrow> string \<Rightarrow> string list" where
  "split_on sep [] = [[]]"
| "split_on sep (c # cs) =
     (if c = sep then [] # split_on sep cs
      else (case split_on sep cs of [] \<Rightarrow> [[c]] | l # ls \<Rightarrow> (c # l) # ls))"

text \<open>
  \<open>s.splitlines()\<close>: the line boundaries below code point 256 are LF, CR, CR LF, VT, FF,
  FS, GS, RS and NEL; the text after the last boundary is a line only when it is not empty.
\<close>

definition is_linebreak :: "char \<Rightarrow> bool" where
  "is_linebreak c = ((10 \<le> code c \<and> code c \<le> 13) \<or> (28 \<le> code c \<and> code c \<le> 30)
                      \<or> code c = 133)"

definition after_break :: "string \<Rightarrow> string" where
  "after_break s =
     (case s of [] \<Rightarrow> []
      | c # cs \<Rightarrow> (case cs of [] \<Rightarrow> []
                    | d # ds \<Rightarrow> if code c = 13 \<and> code d = 10 then ds else cs))"

function splitlines :: "string \<Rightarrow> string list" where
  "splitlines s =
     (if s = [] then []
      else takeWhile (\<lambda>c. \<not> is_linebreak c) s
           # splitlines (after_break (dropWhile (\<lambda>c. \<not> is_linebreak c) s)))"
  by pat_completeness auto
termination
proof (relation "measure length")
  show "wf (measure length)" by simp
next
  fix s :: string
  assume ne: "s \<noteq> []"
  define r where "r = dropWhile (\<lambda>c. \<not> is_linebreak c) s"
  have r_le: "length r \<le> length s" unfolding r_def by (rule length_dropWhile_le)
  have "length (after_break r) < length s"
  proof (cases r)
    case Nil
    then show ?thesis using ne by (simp add: after_break_def)
  next
    case (Cons c cs)
    then have "length (after_break r) \<le> length cs"
      by (cases cs) (simp_all add: after_break_def)
    then show ?thesis using Cons r_le by simp
  qed
  then show "(after_break (dropWhile (\<lambda>c. \<not> is_linebreak c) s), s) \<in> measure length"
    by (simp add: r_def)
qed

declare splitlines.simps [simp del]

definition py_join :: "string \<Rightarrow> string list \<Rightarrow> string" where
  "py_join sep xs = (case xs of [] \<Rightarrow> [] | x # rest \<Rightarrow> x @ concat (map (\<lambda>y. sep @ y) rest))"

text \<open>\<open>str(n)\<close> for an \<open>int\<close>: the decimal digits, with a minus sign when negative.\<close>

definition digit_char :: "nat \<Rightarrow> char" where
  "digit_char d = char_of (48 + d)"

fun str_nat :: "nat \<Rightarrow> string" where
  "str_nat n = (if n < 10 then [digit_char n] else str_nat (n div 10) @ [digit_char (n mod 10)])"

declare str_nat.simps [simp del]

definition str_int :: "int \<Rightarrow> string" where
  "str_int i = (if i < 0 then CHR ''-'' # str_nat (nat (- i)) else str_nat (nat i))"

text \<open>
  \<open>s.isdigit()\<close>: not empty and every character a digit. Below code point 256 the digits
  are \<open>0..9\<close> and the superscripts \<open>0xB2\<close>, \<open>0xB3\<close>, \<open>0xB9\<close>, which \<open>int\<close> refuses.
\<close>

definition py_isdigit_char :: "char \<Rightarrow> bool" where
  "py_isdigit_char c = (is_ascii_digit c \<or> code c = 178 \<or> code c = 179 \<or> code c = 185)"

definition py_isdigit :: "string \<Rightarrow> bool" where
  "py_isdigit s = (s \<noteq> [] \<and> list_all py_isdigit_char s)"

definition digits_value :: "string \<Rightarrow> nat" where
  "digits_value s = foldl (\<lambda>acc c. 10 * acc + (code c - 48)) 0 s"

text \<open>
  \<open>int(s)\<close>, \<open>None\<close> standing for \<open>ValueError\<close>: white space around, an optional sign,
  then decimal digits, where single underscores may separate digits. The white space of
  \<open>int\<close> is narrower than that of \<open>str.strip\<close>: TAB..CR and space, and the other Unicode
  spaces (NEL and NBSP below code point 256), but not FS..US. A literal of more than
  \<open>int_max_str_digits\<close> digits (4300 by default) is refused.
\<close>

definition int_isspace :: "char \<Rightarrow> bool" where
  "int_isspace c = ((9 \<le> code c \<and> code c \<le> 13) \<or> code c = 32 \<or> code c = 133 \<or> code c = 160)"

definition int_max_str_digits :: nat where
  "int_max_str_digits = 4300"

fun digit_groups_ok :: "string list \<Rightarrow> bool" where
  "digit_groups_ok gs = (gs \<noteq> [] \<and> list_all (\<lambda>g. g \<noteq> [] \<and> list_all is_ascii_digit g) gs)"

definition py_int_unsigned :: "string \<Rightarrow> nat option" where
  "py_int_unsigned s =
     (if digit_groups_ok (split_on (CHR ''_'') s)
         \<and> length (filter is_ascii_digit s) \<le> int_max_str_digits
      then Some (digits_value (filter is_ascii_digit s)) else None)"

definition py_int :: "string \<Rightarrow> int option" where
  "py_int s =
     (case strip_where int_isspace s of
        [] \<Rightarrow> None
      | c # cs \<Rightarrow>
          if c = CHR ''-'' then map_option (\<lambda>n. - int n) (py_int_unsigned cs)
          else if c = CHR ''+'' then map_option int (py_int_unsigned cs)
          else map_option int (py_int_unsigned (c # cs)))"

subsection \<open>\<open>pathlib\<close> on POSIX\<close>

text \<open>
  A \<open>PurePosixPath\<close> is its root (\<open>/\<close>, \<open>//\<close> or none) and its components; parsing a
  string drops empty components and single dots. \<open>stem\<close> cuts the last suffix of the last
  component, when the last dot is neither its first nor its last character (Python up to
  3.13).
\<close>

datatype Path = Path (root: string) (parts: "string list")

definition splitroot :: "string \<Rightarrow> string \<times> string" where
  "splitroot p =
     (if take 1 p \<noteq> ''/'' then ('''', p)
      else if take 1 (drop 1 p) \<noteq> ''/'' \<or> take 1 (drop 2 p) = ''/'' then (''/'', drop 1 p)
      else (take 2 p, drop 2 p))"

definition parse_path :: "string \<Rightarrow> Path" where
  "parse_path p =
     (if p = [] then Path [] []
      else Path (fst (splitroot p))
             (filter (\<lambda>x. x \<noteq> [] \<and> x \<noteq> ''.'') (split_on (CHR ''/'') (snd (splitroot p)))))"

definition path_str :: "Path \<Rightarrow> string" where
  "path_str p =
     (if root p @ py_join ''/'' (parts p) = [] then ''.'' else root p @ py_join ''/'' (parts p))"

definition path_name :: "Path \<Rightarrow> string" where
  "path_name p = (if parts p = [] then [] else last (parts p))"

text \<open>\<open>name.rfind('.')\<close>: the index of the last dot, \<open>None\<close> for Python's \<open>-1\<close>.\<close>

definition rfind_dot :: "string \<Rightarrow> nat option" where
  "rfind_dot name =
     (if CHR ''.'' \<in> set name
      then Some (length name - 1 - length (takeWhile (\<lambda>c. c \<noteq> CHR ''.'') (rev name)))
      else None)"

definition name_stem :: "string \<Rightarrow> string" where
  "name_stem name =
     (case rfind_dot name of
        None \<Rightarrow> name
      | Some i \<Rightarrow> if 0 < i \<and> i < length name - 1 then take i name else name)"

definition path_stem :: "Path \<Rightarrow> string" where
  "path_stem p = name_stem (path_name p)"

definition path_parent :: "Path \<Rightarrow> Path" where
  "path_parent p = Path (root p) (butlast (parts p))"

text \<open>\<open>p / name\<close> for a name of one component.\<close>

definition path_child :: "Path \<Rightarrow> string \<Rightarrow> Path" where
  "path_child p name = Path (root p) (parts p @ [name])"

text \<open>\<open>p.with_suffix(suffix)\<close> for a path with a name: the stem of the name, then the
  new suffix.\<close>

definition with_suffix :: "Path \<Rightarrow> string \<Rightarrow> Path" where
  "with_suffix p suffix = Path (root p) (butlast (parts p) @ [path_stem p @ suffix])"

section \<open>\<open>elgato_prompter_text.py\<close>: the settings file\<close>

text \<open>
  A JSON value as \<open>json.load\<close> returns it. A \<open>dict\<close> is an association list in insertion
  order; \<open>d.get(k)\<close> is \<open>map_of d k\<close> and \<open>d[k] = v\<close> is \<open>AList.update k v d\<close>, which
  replaces the value in place or appends the new key.
\<close>

datatype json =
    JNull
  | JBool bool
  | JNum int
  | JStr string
  | JList "json list"
  | JObj "(string \<times> json) list"

type_synonym settings = "(string \<times> json) list"

text \<open>
  The files, by path: a file holds either text that \<open>json.load\<close> rejects or a JSON
  document. Paths are absolute and free of symbolic links, so that \<open>resolve()\<close> returns
  its argument; directories are not modelled.
\<close>

datatype file_content = Garbage | Document json

type_synonym files = "Path \<Rightarrow> file_content option"

datatype io_error = JSONDecodeError

definition SETTINGS_KEY :: string where
  "SETTINGS_KEY = ''applogic.prompter.libraryList''"

definition get_appsettings_path :: "Path \<Rightarrow> Path" where
  "get_appsettings_path texts_dir = path_child (path_parent texts_dir) ''AppSettings.json''"

definition load_settings :: "files \<Rightarrow> Path \<Rightarrow> io_error + settings" where
  "load_settings fs settings_path =
     (case fs settings_path of
        None \<Rightarrow> Inr []
      | Some Garbage \<Rightarrow> Inl JSONDecodeError
      | Some (Document doc) \<Rightarrow> (case doc of JObj d \<Rightarrow> Inr d | _ \<Rightarrow> Inr []))"

text \<open>\<open>save_settings\<close> writes the temporary file beside the settings file and renames
  it over the settings file.\<close>

definition save_settings :: "files \<Rightarrow> Path \<Rightarrow> settings \<Rightarrow> files" where
  "save_settings fs settings_path data =
     (let tmp = with_suffix settings_path ''.json.tmp'';
          fs1 = fs(tmp \<mapsto> Document (JObj data))
      in (fs1(tmp := None))(settings_path := fs1 tmp))"

definition settings_add_guid :: "files \<Rightarrow> Path \<Rightarrow> string \<Rightarrow> io_error + (files \<times> Path)" where
  "settings_add_guid fs texts_dir guid =
     (let spath = get_appsettings_path texts_dir in
      case load_settings fs spath of
        Inl e \<Rightarrow> Inl e
      | Inr settings \<Rightarrow>
          let lst = (case map_of settings SETTINGS_KEY of Some (JList l) \<Rightarrow> l | _ \<Rightarrow> []);
              guid_up = py_upper guid;
              lst' = (if JStr guid_up \<notin> set lst then lst @ [JStr guid_up] else lst);
              settings' = AList.update SETTINGS_KEY (JList lst') settings
          in Inr (save_settings fs spath settings', spath))"

text \<open>The library list a reader of the settings file finds: the list under
  \<open>SETTINGS_KEY\<close>, and the empty list when the file, the key or the list is missing.\<close>

definition library_list :: "files \<Rightarrow> Path \<Rightarrow> json list" where
  "library_list fs spath =
     (case load_settings fs spath of
        Inl e \<Rightarrow> []
      | Inr settings \<Rightarrow> (case map_of settings SETTINGS_KEY of Some (JList l) \<Rightarrow> l | _ \<Rightarrow> []))"

section \<open>\<open>restarter.py\<close>: the operating system as a black box\<close>

text \<open>
  Every external program the module starts is a \<open>command\<close>; the constructor names the
  program and the fixed script or query text, its argument is the one piece that varies:
  \<^item> \<open>mdfind q\<close>: \<^verbatim>\<open>mdfind\<close> with \<open>SPOTLIGHT_QUERY_TEMPLATE\<close> formatted with \<open>q\<close>;
  \<^item> \<open>mdls p\<close>: \<^verbatim>\<open>mdls -name kMDItemCFBundleIdentifier -raw p\<close>;
  \<^item> \<open>osa_count b\<close>, \<open>osa_unix_ids b\<close>, \<open>osa_quit b\<close>, \<open>osa_activate b\<close>: \<^verbatim>\<open>osascript -e\<close>
    with the script that counts the processes of bundle \<open>b\<close>, lists their unix ids, tells
    the application to quit, tells it to activate;
  \<^item> \<open>open_b b\<close>: \<^verbatim>\<open>open -b b\<close>;
  \<^item> \<open>ps exe script arg\<close>: \<^verbatim>\<open>exe -NoProfile -Command script [arg]\<close>, the script being
    one of the PowerShell texts of the module.
\<close>

datatype ps_prog = powershell | pwsh

datatype ps_script =
    ps_version        \<comment> \<open>\<^verbatim>\<open>$PSVersionTable.PSVersion\<close>, the probe of \<open>ps_exe\<close>\<close>
  | ps_find_pids      \<comment> \<open>the script of \<open>win_find_running_pids\<close>\<close>
  | ps_exec_path      \<comment> \<open>the script of \<open>win_exec_path_for_pid\<close>\<close>
  | script_close      \<comment> \<open>\<open>CloseMainWindow()\<close> on each process id\<close>
  | script_kill       \<comment> \<open>\<^verbatim>\<open>Stop-Process -Id $_ -Force\<close> on each process id\<close>
  | ps_is_alive       \<comment> \<open>the script of \<open>win_is_pid_alive\<close>\<close>
  | script_lnk        \<comment> \<open>the target of the first matching Start Menu shortcut\<close>
  | script_uwp        \<comment> \<open>the AppID of the first matching \<^verbatim>\<open>Get-StartApps\<close> entry\<close>
  | ps_start_exe      \<comment> \<open>\<^verbatim>\<open>Start-Process -FilePath $exe\<close>\<close>
  | ps_start_uwp      \<comment> \<open>\<^verbatim>\<open>Start-Process\<close> on \<^verbatim>\<open>shell:AppsFolder\<close> and the AppID\<close>
  | ps_start_alias    \<comment> \<open>\<^verbatim>\<open>Start-Process $name\<close>\<close>

datatype command =
    mdfind string
  | mdls string
  | osa_count string
  | osa_unix_ids string
  | osa_quit string
  | osa_activate string
  | open_b string
  | ps ps_prog ps_script "string option"

text \<open>
  Starting a program either fails because the executable does not exist
  (\<open>FileNotFoundError\<close>) or ends with an exit code and the captured standard output.
  \<open>os.kill(pid, 9)\<close> delivers the signal, finds no such process, or is refused.
\<close>

datatype started = NoSuchFile | Exited int string

datatype kill_result = Signalled | NoSuchProcess | NotPermitted

datatype event = Spawn command started | Kill int kill_result | Sleep

type_synonym log = "event list"

text \<open>
  The machine answers as a function of everything that has happened so far. \<open>polls\<close>
  stands for the clock: the number of times the test \<^verbatim>\<open>time.time() < deadline\<close> of a polling
  loop succeeds when the loop is not left earlier, for the deadline computed after the
  given log from the given timeout.
\<close>

record os_model =
  spawn :: "log \<Rightarrow> command \<Rightarrow> started"
  kill :: "log \<Rightarrow> int \<Rightarrow> kill_result"
  polls :: "log \<Rightarrow> real \<Rightarrow> nat"

datatype reason =
    PowerShell_not_found
  | No_application_matching string
  | No_bundle_id Path
  | Unsupported_platform

datatype exn =
    FileNotFoundError
  | CalledProcessError int
  | RuntimeError reason
  | PermissionError
  | ValueError
  | Exception string string  \<comment> \<open>any other exception: its type and its message\<close>

text \<open>A computation reads and extends the log, and returns a value or raises.\<close>

type_synonym 'a io = "log \<Rightarrow> (exn + 'a) \<times> log"

definition io_return :: "'a \<Rightarrow> 'a io" where
  "io_return x h = (Inr x, h)"

definition io_raise :: "exn \<Rightarrow> 'a io" where
  "io_raise e h = (Inl e, h)"

definition io_bind :: "'a io \<Rightarrow> ('a \<Rightarrow> 'b io) \<Rightarrow> 'b io" where
  "io_bind m f h = (case m h of (Inl e, h1) \<Rightarrow> (Inl e, h1) | (Inr x, h1) \<Rightarrow> f x h1)"

definition io_of :: "exn + 'a \<Rightarrow> 'a io" where
  "io_of r h = (r, h)"

subsection \<open>Shared helpers\<close>

definition subprocess_run :: "os_model \<Rightarrow> command \<Rightarrow> bool \<Rightarrow> (int \<times> string) io" where
  "subprocess_run os cmd check h =
     (case spawn os h cmd of
        NoSuchFile \<Rightarrow> (Inl FileNotFoundError, h @ [Spawn cmd NoSuchFile])
      | Exited rc out \<Rightarrow>
          (if check \<and> rc \<noteq> 0 then Inl (CalledProcessError rc) else Inr (rc, out),
           h @ [Spawn cmd (Exited rc out)]))"

definition run :: "os_model \<Rightarrow> command \<Rightarrow> bool \<Rightarrow> string io" where
  "run os cmd check =
     io_bind (subprocess_run os cmd check) (\<lambda>res. io_return (py_strip (snd res)))"

definition time_sleep :: "unit io" where
  "time_sleep h = (Inr (), h @ [Sleep])"

text \<open>
  The comprehensions \<^verbatim>\<open>[int(x) for x in xs if x.strip().isdigit()]\<close> of
  \<open>win_find_running_pids\<close> and \<^verbatim>\<open>[int(x.strip()) for x in xs if x.strip().isdigit()]\<close> of
  \<open>mac_pids_for\<close>; \<open>arg\<close> is what is done to \<open>x\<close> before \<open>int\<close>. \<open>int\<close> raises
  \<open>ValueError\<close> on a superscript digit that \<open>isdigit\<close> let pass, and on a character
  FS..US that \<open>strip\<close> would have removed.
\<close>

fun ints_of :: "(string \<Rightarrow> string) \<Rightarrow> string list \<Rightarrow> exn + int list" where
  "ints_of arg [] = Inr []"
| "ints_of arg (x # xs) =
     (if py_isdigit (py_strip x)
      then (case py_int (arg x) of
              None \<Rightarrow> Inl ValueError
            | Some n \<Rightarrow> (case ints_of arg xs of Inl e \<Rightarrow> Inl e | Inr ns \<Rightarrow> Inr (n # ns)))
      else ints_of arg xs)"

subsection \<open>macOS\<close>

definition in_applications :: "string \<Rightarrow> bool" where
  "in_applications path_s =
     (startswith path_s ''/Applications/'' \<or> startswith path_s ''/System/Applications/'')"

definition score :: "string \<Rightarrow> Path \<Rightarrow> nat \<times> nat \<times> nat \<times> int" where
  "score s p =
     (if in_applications (path_str p) then 2 else 0,
      if startswith (py_lower (path_stem p)) s then 2 else 0,
      if contains (py_lower (path_stem p)) s then 1 else 0,
      - int (length (path_str p)))"

text \<open>\<^verbatim>\<open>hits.sort(key=score, reverse=True)\<close> is stable: the list is reversed, sorted
  upwards by a stable sort, and reversed again.\<close>

definition sort_reverse :: "('a \<Rightarrow> 'k::linorder) \<Rightarrow> 'a list \<Rightarrow> 'a list" where
  "sort_reverse key xs = rev (sort_key key (rev xs))"

definition mdfind_hits :: "string \<Rightarrow> Path list" where
  "mdfind_hits out = map parse_path (filter (\<lambda>p. endswith p ''.app'') (splitlines out))"

definition mac_mdfind_app :: "os_model \<Rightarrow> string \<Rightarrow> Path option io" where
  "mac_mdfind_app os q =
     io_bind (run os (mdfind q) False) (\<lambda>out.
       if mdfind_hits out = [] then io_return None
       else io_return (Some (hd (sort_reverse (score (py_lower q)) (mdfind_hits out)))))"

definition mac_bundle_id_for :: "os_model \<Rightarrow> Path \<Rightarrow> string io" where
  "mac_bundle_id_for os app_path = run os (mdls (path_str app_path)) True"

definition mac_count_running_procs :: "os_model \<Rightarrow> string \<Rightarrow> int io" where
  "mac_count_running_procs os bundle_id =
     io_bind (run os (osa_count bundle_id) False) (\<lambda>out.
       io_return (case py_int out of Some n \<Rightarrow> n | None \<Rightarrow> 0))"

definition mac_pids_for :: "os_model \<Rightarrow> string \<Rightarrow> int list io" where
  "mac_pids_for os bundle_id =
     io_bind (run os (osa_unix_ids bundle_id) False) (\<lambda>out.
       if out = [] then io_return [] else io_of (ints_of py_strip (split_on (CHR '','') out)))"

text \<open>\<open>os.kill(pid, 9)\<close> inside \<^verbatim>\<open>try ... except ProcessLookupError: pass\<close>.\<close>

definition kill_quietly :: "os_model \<Rightarrow> int \<Rightarrow> unit io" where
  "kill_quietly os pid h =
     (case kill os h pid of
        NotPermitted \<Rightarrow> (Inl PermissionError, h @ [Kill pid NotPermitted])
      | r \<Rightarrow> (Inr (), h @ [Kill pid r]))"

fun kill_each :: "os_model \<Rightarrow> int list \<Rightarrow> unit io" where
  "kill_each os [] = io_return ()"
| "kill_each os (pid # pids) = io_bind (kill_quietly os pid) (\<lambda>_. kill_each os pids)"

text \<open>The polling loop of \<open>mac_quit_app\<close>, for the number of polls the clock allows;
  \<open>True\<close> when the loop returned because the count reached zero.\<close>

primrec mac_wait :: "os_model \<Rightarrow> string \<Rightarrow> nat \<Rightarrow> bool io" where
  "mac_wait os bundle_id 0 = io_return False"
| "mac_wait os bundle_id (Suc n) =
     io_bind (mac_count_running_procs os bundle_id) (\<lambda>c.
       if c = 0 then io_return True
       else io_bind time_sleep (\<lambda>_. mac_wait os bundle_id n))"

definition mac_quit_app :: "os_model \<Rightarrow> string \<Rightarrow> real \<Rightarrow> bool \<Rightarrow> unit io" where
  "mac_quit_app os bundle_id timeout_s force_after_timeout =
     io_bind (subprocess_run os (osa_quit bundle_id) False) (\<lambda>_.
     io_bind (\<lambda>h. mac_wait os bundle_id (polls os h timeout_s) h) (\<lambda>gone.
       if gone then io_return ()
       else if force_after_timeout
       then io_bind (mac_pids_for os bundle_id) (\<lambda>pids. kill_each os pids)
       else io_return ()))"

definition mac_launch_app :: "os_model \<Rightarrow> string \<Rightarrow> unit io" where
  "mac_launch_app os bundle_id =
     io_bind (subprocess_run os (open_b bundle_id) True) (\<lambda>_.
     io_bind (subprocess_run os (osa_activate bundle_id) False) (\<lambda>_. io_return ()))"

subsection \<open>Windows\<close>

text \<open>\<open>ps_exe\<close> probes \<^verbatim>\<open>powershell\<close> and then \<^verbatim>\<open>pwsh\<close>; only \<open>FileNotFoundError\<close> can come
  out of a probe, and it moves on to the next candidate.\<close>

definition ps_exe :: "os_model \<Rightarrow> ps_prog io" where
  "ps_exe os h =
     (case subprocess_run os (ps powershell ps_version None) False h of
        (Inr _, h1) \<Rightarrow> (Inr powershell, h1)
      | (Inl _, h1) \<Rightarrow>
          (case subprocess_run os (ps pwsh ps_version None) False h1 of
             (Inr _, h2) \<Rightarrow> (Inr pwsh, h2)
           | (Inl _, h2) \<Rightarrow> (Inl (RuntimeError PowerShell_not_found), h2)))"

definition ps_run :: "os_model \<Rightarrow> ps_script \<Rightarrow> string option \<Rightarrow> bool \<Rightarrow> string io" where
  "ps_run os script arg check =
     io_bind (ps_exe os) (\<lambda>exe.
     io_bind (subprocess_run os (ps exe script arg) check) (\<lambda>res.
       io_return (py_strip (snd res))))"

definition win_find_running_pids :: "os_model \<Rightarrow> string \<Rightarrow> int list io" where
  "win_find_running_pids os q =
     io_bind (ps_run os ps_find_pids (Some q) False) (\<lambda>out. io_of (ints_of (\<lambda>x. x) (splitlines out)))"

definition win_exec_path_for_pid :: "os_model \<Rightarrow> int \<Rightarrow> string option io" where
  "win_exec_path_for_pid os pid =
     io_bind (ps_run os ps_exec_path (Some (str_int pid)) False) (\<lambda>out.
       io_return (if py_strip out = [] then None else Some (py_strip out)))"

definition win_is_pid_alive :: "os_model \<Rightarrow> int \<Rightarrow> bool io" where
  "win_is_pid_alive os pid =
     io_bind (ps_run os ps_is_alive (Some (str_int pid)) False) (\<lambda>out.
       io_return (py_strip out = ''1''))"

text \<open>\<^verbatim>\<open>alive = [pid for pid in pids if win_is_pid_alive(pid)]\<close>\<close>

fun alive_pids :: "os_model \<Rightarrow> int list \<Rightarrow> int list io" where
  "alive_pids os [] = io_return []"
| "alive_pids os (pid # pids) =
     io_bind (win_is_pid_alive os pid) (\<lambda>a.
     io_bind (alive_pids os pids) (\<lambda>rest.
       io_return (if a then pid # rest else rest)))"

text \<open>The polling loop of \<open>win_quit_pids\<close>; \<open>True\<close> when the loop returned because no
  process id was alive.\<close>

primrec win_wait :: "os_model \<Rightarrow> int list \<Rightarrow> nat \<Rightarrow> bool io" where
  "win_wait os pids 0 = io_return False"
| "win_wait os pids (Suc n) =
     io_bind (alive_pids os pids) (\<lambda>alive.
       if alive = [] then io_return True
       else io_bind time_sleep (\<lambda>_. win_wait os pids n))"

definition pid_arg :: "int list \<Rightarrow> string option" where
  "pid_arg pids = Some (py_join '','' (map str_int pids))"

definition win_quit_pids :: "os_model \<Rightarrow> int list \<Rightarrow> real \<Rightarrow> bool \<Rightarrow> unit io" where
  "win_quit_pids os pids timeout_s force_after_timeout =
     (if pids = [] then io_return ()
      else
        io_bind (ps_run os script_close (pid_arg pids) False) (\<lambda>_.
        io_bind (\<lambda>h. win_wait os pids (polls os h timeout_s) h) (\<lambda>gone.
          if gone then io_return ()
          else if force_after_timeout
          then io_bind (ps_run os script_kill (pid_arg pids) False) (\<lambda>_. io_return ())
          else io_return ())))"

text \<open>\<^verbatim>\<open>if fallback_from_pid:\<close> holds for a string that is not empty.\<close>

definition win_resolve_launch_target ::
  "os_model \<Rightarrow> string \<Rightarrow> string option \<Rightarrow> (string \<times> string) io" where
  "win_resolve_launch_target os q fallback_from_pid =
     (if fallback_from_pid \<noteq> None \<and> fallback_from_pid \<noteq> Some []
      then io_return (''exe'', the fallback_from_pid)
      else
        io_bind (ps_run os script_lnk (Some q) False) (\<lambda>out.
          if py_strip out \<noteq> [] then io_return (''exe'', py_strip out)
          else
            io_bind (ps_run os script_uwp (Some q) False) (\<lambda>out2.
              if py_strip out2 \<noteq> [] then io_return (''uwp'', py_strip out2)
              else io_return (''alias'', q))))"

definition win_launch :: "os_model \<Rightarrow> string \<Rightarrow> string \<Rightarrow> unit io" where
  "win_launch os mode val =
     (if mode = ''exe'' then io_bind (ps_run os ps_start_exe (Some val) True) (\<lambda>_. io_return ())
      else if mode = ''uwp'' then io_bind (ps_run os ps_start_uwp (Some val) True) (\<lambda>_. io_return ())
      else io_bind (ps_run os ps_start_alias (Some val) True) (\<lambda>_. io_return ()))"

text \<open>The loop of \<open>__enter__\<close> that takes the executable path of the first process id
  that has one.\<close>

fun first_exec_path :: "os_model \<Rightarrow> int list \<Rightarrow> string option io" where
  "first_exec_path os [] = io_return None"
| "first_exec_path os (pid # pids) =
     io_bind (win_exec_path_for_pid os pid) (\<lambda>path.
       case path of Some p \<Rightarrow> io_return (Some p) | None \<Rightarrow> first_exec_path os pids)"

section \<open>\<open>restarter.py\<close>: \<open>AppRestarter\<close>\<close>

text \<open>\<open>_launch_info\<close> is \<^verbatim>\<open>("mac", bundle_id)\<close> or \<^verbatim>\<open>("win", mode, target)\<close>.\<close>

datatype launch_info = mac_info string | win_info string string

record AppRestarter =
  search :: string
  timeout_s :: real
  force_after_timeout :: bool
  restart_if_not_running :: bool
  platform :: string
  should_restart :: bool
  launch_info :: "launch_info option"

definition init :: "string \<Rightarrow> string \<Rightarrow> real \<Rightarrow> bool \<Rightarrow> bool \<Rightarrow> AppRestarter" where
  "init sys_platform q t force restart =
     \<lparr> search = q, timeout_s = t, force_after_timeout = force,
       restart_if_not_running = restart,
       platform = (if sys_platform = ''darwin'' then ''mac''
                   else if startswith sys_platform ''win'' then ''win'' else ''other''),
       should_restart = False, launch_info = None \<rparr>"

definition enter_mac :: "os_model \<Rightarrow> AppRestarter \<Rightarrow> AppRestarter io" where
  "enter_mac os self =
     io_bind (mac_mdfind_app os (search self)) (\<lambda>app_path.
       case app_path of
         None \<Rightarrow> io_raise (RuntimeError (No_application_matching (search self)))
       | Some p \<Rightarrow>
           io_bind (mac_bundle_id_for os p) (\<lambda>bid.
             if bid = [] \<or> bid = ''(null)'' then io_raise (RuntimeError (No_bundle_id p))
             else
               io_bind (mac_count_running_procs os bid) (\<lambda>n.
                 if n > 0
                 then io_bind (mac_quit_app os bid (timeout_s self) (force_after_timeout self))
                        (\<lambda>_. io_return (self\<lparr>launch_info := Some (mac_info bid),
                                               should_restart := True\<rparr>))
                 else io_return (self\<lparr>launch_info := Some (mac_info bid),
                                       should_restart := restart_if_not_running self\<rparr>))))"

definition enter_win :: "os_model \<Rightarrow> AppRestarter \<Rightarrow> AppRestarter io" where
  "enter_win os self =
     io_bind (win_find_running_pids os (search self)) (\<lambda>pids.
     io_bind
       (if pids \<noteq> []
        then io_bind (first_exec_path os pids) (\<lambda>exe_from_running.
             io_bind (win_quit_pids os pids (timeout_s self) (force_after_timeout self)) (\<lambda>_.
               io_return (exe_from_running, True)))
        else io_return (None, restart_if_not_running self))
       (\<lambda>st.
     io_bind (win_resolve_launch_target os (search self) (fst st)) (\<lambda>plan.
       io_return (self\<lparr>should_restart := snd st,
                         launch_info := Some (win_info (fst plan) (snd plan))\<rparr>))))"

definition enter :: "os_model \<Rightarrow> AppRestarter \<Rightarrow> AppRestarter io" where
  "enter os self =
     (if platform self = ''mac'' then enter_mac os self
      else if platform self = ''win'' then enter_win os self
      else io_raise (RuntimeError Unsupported_platform))"

text \<open>
  The \<^verbatim>\<open>try\<close> block of \<open>__exit__\<close>: it returns \<open>False\<close>, falls off its end (\<open>None\<close>) or
  raises. Unpacking a \<open>_launch_info\<close> of the other platform's length raises \<open>ValueError\<close>.
\<close>

definition exit_try :: "os_model \<Rightarrow> AppRestarter \<Rightarrow> bool option io" where
  "exit_try os self =
     (if \<not> should_restart self \<or> launch_info self = None then io_return (Some False)
      else if platform self = ''mac'' then
        (case launch_info self of
           Some (mac_info bid) \<Rightarrow> io_bind (mac_launch_app os bid) (\<lambda>_. io_return None)
         | _ \<Rightarrow> io_raise ValueError)
      else if platform self = ''win'' then
        (case launch_info self of
           Some (win_info mode target) \<Rightarrow> io_bind (win_launch os mode target) (\<lambda>_. io_return None)
         | _ \<Rightarrow> io_raise ValueError)
      else io_return None)"

text \<open>
  \<^verbatim>\<open>try: body finally: return v\<close>: the \<open>return\<close> of the \<open>finally\<close> clause discards an
  exception in flight and replaces a value the body returned; what the body did stays
  done.
\<close>

definition finally_return :: "'b io \<Rightarrow> 'a \<Rightarrow> 'a io" where
  "finally_return body v h = (Inr v, snd (body h))"

text \<open>\<open>__exit__(exc_type, exc, tb)\<close>; \<open>exc\<close> is the exception of the block, if any.\<close>

definition exit :: "os_model \<Rightarrow> AppRestarter \<Rightarrow> exn option \<Rightarrow> bool io" where
  "exit os self exc = finally_return (exit_try os self) False"

text \<open>
  \<^verbatim>\<open>with AppRestarter(...): body\<close>. When \<open>__enter__\<close> raises, neither the body nor
  \<open>__exit__\<close> runs. Otherwise the body runs and then \<open>__exit__\<close>; an exception of
  \<open>__exit__\<close> replaces the outcome of the body, a true return value suppresses the body's
  exception (the statement then ends normally, \<open>None\<close>), and a false one lets it continue.
\<close>

definition with_restarter :: "os_model \<Rightarrow> AppRestarter \<Rightarrow> 'a io \<Rightarrow> 'a option io" where
  "with_restarter os self body h =
     (case enter os self h of
        (Inl e, h1) \<Rightarrow> (Inl e, h1)
      | (Inr self1, h1) \<Rightarrow>
          (case body h1 of
             (Inr v, h2) \<Rightarrow>
               (case exit os self1 None h2 of
                  (Inl e', h3) \<Rightarrow> (Inl e', h3)
                | (Inr _, h3) \<Rightarrow> (Inr (Some v), h3))
           | (Inl exc, h2) \<Rightarrow>
               (case exit os self1 (Some exc) h2 of
                  (Inl e', h3) \<Rightarrow> (Inl e', h3)
                | (Inr suppress, h3) \<Rightarrow>
                    if suppress then (Inr None, h3) else (Inl exc, h3))))"

section \<open>Notions used in the statements\<close>

text \<open>A forced termination in the log: \<open>os.kill(pid, 9)\<close> on macOS, the
  \<^verbatim>\<open>Stop-Process -Force\<close> script on Windows.\<close>

definition is_force_kill :: "event \<Rightarrow> bool" where
  "is_force_kill ev =
     (case ev of
        Kill pid r \<Rightarrow> True
      | Spawn c r \<Rightarrow> (case c of ps exe script arg \<Rightarrow> script = script_kill | _ \<Rightarrow> False)
      | Sleep \<Rightarrow> False)"

text \<open>A start of the application in the log: \<^verbatim>\<open>open -b\<close> on macOS, one of the three
  \<^verbatim>\<open>Start-Process\<close> scripts on Windows.\<close>

definition is_launch :: "event \<Rightarrow> bool" where
  "is_launch ev =
     (case ev of
        Spawn c r \<Rightarrow>
          (case c of
             open_b b \<Rightarrow> True
           | ps exe script arg \<Rightarrow>
               script = ps_start_exe \<or> script = ps_start_uwp \<or> script = ps_start_alias
           | _ \<Rightarrow> False)
      | _ \<Rightarrow> False)"

text \<open>The relaunch of a scope: the launch function of its platform on the plan that
  \<open>__enter__\<close> stored.\<close>

definition relaunch :: "os_model \<Rightarrow> AppRestarter \<Rightarrow> unit io" where
  "relaunch os self =
     (case launch_info self of
        Some (mac_info bid) \<Rightarrow> mac_launch_app os bid
      | Some (win_info mode target) \<Rightarrow> win_launch os mode target
      | None \<Rightarrow> io_return ())"

section \<open>Example machines\<close>

text \<open>
  A Mac on which Spotlight knows two bundles for the query, the application runs until it
  is told to quit, and \<^verbatim>\<open>open -b\<close> fails with exit code 1.
\<close>

definition quit_sent :: "log \<Rightarrow> bool" where
  "quit_sent h = list_ex (\<lambda>ev. case ev of Spawn (osa_quit b) r \<Rightarrow> True | _ \<Rightarrow> False) h"

definition mac_spawn :: "log \<Rightarrow> command \<Rightarrow> started" where
  "mac_spawn h c =
     (case c of
        mdfind q \<Rightarrow> Exited 0 (''/Users/me/Downloads/Camera Hub.app'' @ [char_of (10::nat)]
                               @ ''/Applications/Camera Hub.app'' @ [char_of (10::nat)])
      | mdls p \<Rightarrow> Exited 0 ''com.elgato.CameraHub''
      | osa_count b \<Rightarrow> Exited 0 (if quit_sent h then ''0'' else ''1'')
      | osa_unix_ids b \<Rightarrow> Exited 0 (if quit_sent h then [] else ''4242'')
      | osa_quit b \<Rightarrow> Exited 0 []
      | osa_activate b \<Rightarrow> Exited 0 []
      | open_b b \<Rightarrow> Exited 1 []
      | ps exe script arg \<Rightarrow> NoSuchFile)"

definition mac_open_fails :: os_model where
  "mac_open_fails = \<lparr> spawn = mac_spawn, kill = (\<lambda>h pid. NoSuchProcess), polls = (\<lambda>h t. 3) \<rparr>"

text \<open>The scope of the command line tool on that Mac, before and after \<open>__enter__\<close>.\<close>

definition camera_hub :: AppRestarter where
  "camera_hub = init ''darwin'' ''Camera Hub'' 20 True False"

definition camera_hub_entered :: AppRestarter where
  "camera_hub_entered =
     camera_hub\<lparr>launch_info := Some (mac_info ''com.elgato.CameraHub''), should_restart := True\<rparr>"

text \<open>
  A Windows PC with Windows PowerShell. Two processes match \<open>notepad\<close>: 111 ends when
  asked to close, 222 stays alive whatever happens. \<open>notepad\<close> has a Start Menu shortcut,
  \<open>calc\<close> is a packaged application, and nothing at all matches any other search text.
\<close>

definition win_spawn :: "log \<Rightarrow> command \<Rightarrow> started" where
  "win_spawn h c =
     (case c of
        ps exe script arg \<Rightarrow>
          (if exe = pwsh then NoSuchFile
           else case script of
               ps_version \<Rightarrow> Exited 0 ''5.1''
             | ps_find_pids \<Rightarrow>
                 Exited 0 (if arg = Some ''notepad''
                           then ''111'' @ [char_of (13::nat), char_of (10::nat)] @ ''222'' else [])
             | ps_exec_path \<Rightarrow> Exited 0 []
             | ps_is_alive \<Rightarrow> Exited 0 (if arg = Some ''222'' then ''1'' else ''0'')
             | script_lnk \<Rightarrow>
                 Exited 0 (if arg = Some ''notepad'' then ''C:/Windows/notepad.exe'' else [])
             | script_uwp \<Rightarrow>
                 Exited 0 (if arg = Some ''calc''
                           then ''Microsoft.WindowsCalculator_8wekyb3d8bbwe!App'' else [])
             | _ \<Rightarrow> Exited 0 [])
      | _ \<Rightarrow> NoSuchFile)"

definition win_pc :: os_model where
  "win_pc = \<lparr> spawn = win_spawn, kill = (\<lambda>h pid. NoSuchProcess), polls = (\<lambda>h t. 2) \<rparr>"

text \<open>A Mac on which the application is installed and not running, where Spotlight
  knows no application for any other search text, with a clock that leaves no time for a
  single poll.\<close>

definition idle_spawn :: "log \<Rightarrow> command \<Rightarrow> started" where
  "idle_spawn h c =
     (case c of
        mdfind q \<Rightarrow> Exited 0 (if q = ''Camera Hub'' then ''/Applications/Camera Hub.app''
                               else ''/Users/me/Desktop/notes.txt'')
      | mdls p \<Rightarrow> Exited 0 ''com.elgato.CameraHub''
      | osa_count b \<Rightarrow> Exited 0 ''0''
      | osa_unix_ids b \<Rightarrow> Exited 0 []
      | ps exe script arg \<Rightarrow> NoSuchFile
      | _ \<Rightarrow> Exited 0 [])"

definition mac_idle :: os_model where
  "mac_idle = \<lparr> spawn = idle_spawn, kill = (\<lambda>h pid. Signalled), polls = (\<lambda>h t. 0) \<rparr>"

text \<open>Scopes for a search text that matches nothing, on either platform, with
  \<open>restart_if_not_running\<close> set.\<close>

definition no_such_app_win :: AppRestarter where
  "no_such_app_win = init ''win32'' ''nosuchapp'' 20 True True"

definition no_such_app_mac :: AppRestarter where
  "no_such_app_mac = init ''darwin'' ''nosuchapp'' 20 True True"


section \<open>Properties of \<open>slugify\<close>\<close>

lemma rstrip_where_prefix: "\<exists>ys. s = rstrip_where P s @ ys"
proof -
  have "rev (dropWhile P (rev s)) @ rev (takeWhile P (rev s))
        = rev (takeWhile P (rev s) @ dropWhile P (rev s))"
    by (simp only: rev_append)
  also have "\<dots> = rev (rev s)" by (simp only: takeWhile_dropWhile_id)
  finally have "s = rstrip_where P s @ rev (takeWhile P (rev s))"
    by (simp add: rstrip_where_def)
  then show ?thesis by blast
qed

lemma rstrip_where_last: "rstrip_where P s \<noteq> [] \<Longrightarrow> \<not> P (last (rstrip_where P s))"
proof -
  assume "rstrip_where P s \<noteq> []"
  then have ne: "dropWhile P (rev s) \<noteq> []" by (simp add: rstrip_where_def)
  then have "\<not> P (hd (dropWhile P (rev s)))" by (rule hd_dropWhile)
  then show ?thesis using ne by (simp add: rstrip_where_def last_rev)
qed

lemma rstrip_where_hd: "rstrip_where P s \<noteq> [] \<Longrightarrow> hd (rstrip_where P s) = hd s"
proof -
  assume ne: "rstrip_where P s \<noteq> []"
  obtain ys where "s = rstrip_where P s @ ys" using rstrip_where_prefix by blast
  then have "hd s = hd (rstrip_where P s @ ys)" by simp
  then show ?thesis using ne by simp
qed













lemma strip_where_ends:
  "strip_where P s = [] \<or> (\<not> P (hd (strip_where P s)) \<and> \<not> P (last (strip_where P s)))"
proof (cases "strip_where P s = []")
  case True
  then show ?thesis by simp
next
  case False
  then have ne: "rstrip_where P (dropWhile P s) \<noteq> []"
    by (simp add: strip_where_def lstrip_where_def)
  have dne: "dropWhile P s \<noteq> []"
  proof
    assume e: "dropWhile P s = []"
    have "rstrip_where P (dropWhile P s) = []" unfolding e by (simp add: rstrip_where_def)
    then show False using ne by simp
  qed
  have "hd (rstrip_where P (dropWhile P s)) = hd (dropWhile P s)"
    using ne by (rule rstrip_where_hd)
  moreover have "\<not> P (hd (dropWhile P s))" using dne by (rule hd_dropWhile)
  moreover have "\<not> P (last (rstrip_where P (dropWhile P s)))" using ne by (rule rstrip_where_last)
  ultimately show ?thesis by (simp add: strip_where_def lstrip_where_def)
qed














section \<open>Properties of \<open>settings_add_guid\<close>\<close>

lemma tmp_path_differs:
  "with_suffix (get_appsettings_path texts_dir) ''.json.tmp'' \<noteq> get_appsettings_path texts_dir"
proof -
  have "name_stem ''AppSettings.json'' = ''AppSettings''"
    by (simp add: name_stem_def rfind_dot_def)
  then show ?thesis
    by (simp add: with_suffix_def get_appsettings_path_def path_child_def path_stem_def
        path_name_def)
qed

lemma save_settings_apply:
  "save_settings fs (get_appsettings_path d) data
   = (fs(with_suffix (get_appsettings_path d) ''.json.tmp'' := None))
       (get_appsettings_path d \<mapsto> Document (JObj data))"
  by (simp add: save_settings_def Let_def)

lemma save_settings_read:
  "load_settings (save_settings fs (get_appsettings_path d) data) (get_appsettings_path d)
   = Inr data"
  by (simp add: save_settings_apply load_settings_def)

lemma save_settings_again:
  "save_settings (save_settings fs (get_appsettings_path d) data) (get_appsettings_path d) data
   = save_settings fs (get_appsettings_path d) data"
  using tmp_path_differs [of d] by (auto simp: save_settings_apply fun_eq_iff)

lemma map_of_update_same: "map_of (AList.update k v al) k = Some v"
  by (simp add: update_conv')

lemma update_update_same: "AList.update k v (AList.update k v al) = AList.update k v al"
  by (rule update_triv) (rule map_of_update_same)

text \<open>
  Claim C10. Unless the settings file holds text that is not JSON (then \<open>json.load\<close>
  raises), \<open>settings_add_guid\<close> succeeds and returns the path of the settings file.
  Afterwards the library list is the old one when it already held the upper-cased guid,
  and the old one with the upper-cased guid appended at the end otherwise; a guid that
  was absent occurs exactly once; a list without duplicates stays without duplicates;
  and applying the operation again with the same guid changes nothing, neither in the
  list nor in any file.
\<close>

theorem settings_add_guid_idempotent:
  assumes "fs (get_appsettings_path texts_dir) \<noteq> Some Garbage"
  shows "\<exists>fs'.
      settings_add_guid fs texts_dir guid = Inr (fs', get_appsettings_path texts_dir)
    \<and> library_list fs' (get_appsettings_path texts_dir)
        = (if JStr (py_upper guid) \<in> set (library_list fs (get_appsettings_path texts_dir))
           then library_list fs (get_appsettings_path texts_dir)
           else library_list fs (get_appsettings_path texts_dir) @ [JStr (py_upper guid)])
    \<and> (JStr (py_upper guid) \<notin> set (library_list fs (get_appsettings_path texts_dir)) \<longrightarrow>
         count_list (library_list fs' (get_appsettings_path texts_dir)) (JStr (py_upper guid)) = 1)
    \<and> (distinct (library_list fs (get_appsettings_path texts_dir)) \<longrightarrow>
         distinct (library_list fs' (get_appsettings_path texts_dir)))
    \<and> settings_add_guid fs' texts_dir guid = Inr (fs', get_appsettings_path texts_dir)"
proof -
  define sp where "sp = get_appsettings_path texts_dir"
  define g where "g = JStr (py_upper guid)"
  have "\<exists>settings. load_settings fs sp = Inr settings"
  proof (cases "fs sp")
    case None
    then show ?thesis by (simp add: load_settings_def)
  next
    case (Some content)
    then obtain doc where "content = Document doc"
      using assms by (cases content) (simp_all add: sp_def)
    then show ?thesis using Some by (cases doc) (simp_all add: load_settings_def)
  qed
  then obtain settings where ld: "load_settings fs sp = Inr settings" by blast
  define lst where
    "lst = (case map_of settings SETTINGS_KEY of Some (JList l) \<Rightarrow> l | _ \<Rightarrow> [])"
  define lst' where "lst' = (if g \<notin> set lst then lst @ [g] else lst)"
  define settings' where "settings' = AList.update SETTINGS_KEY (JList lst') settings"
  define fs' where "fs' = save_settings fs sp settings'"
  have first: "settings_add_guid fs texts_dir guid = Inr (fs', sp)"
    unfolding settings_add_guid_def Let_def sp_def [symmetric] ld sum.case
      g_def [symmetric] lst_def [symmetric] lst'_def [symmetric] settings'_def [symmetric]
      fs'_def [symmetric]
    by (rule refl)
  have old: "library_list fs sp = lst"
    by (simp add: library_list_def ld lst_def)
  have ld': "load_settings fs' sp = Inr settings'"
    unfolding fs'_def sp_def by (rule save_settings_read)
  have key': "map_of settings' SETTINGS_KEY = Some (JList lst')"
    unfolding settings'_def by (rule map_of_update_same)
  have new: "library_list fs' sp = lst'"
    by (simp add: library_list_def ld' key')
  have mem: "g \<in> set lst'" by (simp add: lst'_def)
  have same: "AList.update SETTINGS_KEY (JList lst') settings' = settings'"
    unfolding settings'_def by (rule update_update_same)
  have again: "save_settings fs' sp settings' = fs'"
    unfolding fs'_def sp_def by (rule save_settings_again)
  have second: "settings_add_guid fs' texts_dir guid = Inr (fs', sp)"
  proof -
    have "(if g \<notin> set lst' then lst' @ [g] else lst') = lst'" using mem by simp
    then show ?thesis
      unfolding settings_add_guid_def Let_def sp_def [symmetric] ld' sum.case key'
        g_def [symmetric] option.case json.case
      by (simp only: same again)
  qed
  have shape: "library_list fs' sp
      = (if g \<in> set (library_list fs sp) then library_list fs sp else library_list fs sp @ [g])"
    by (simp add: old new lst'_def)
  have once: "g \<notin> set (library_list fs sp) \<longrightarrow> count_list (library_list fs' sp) g = 1"
    by (simp add: old new lst'_def count_list_0_iff)
  have dist: "distinct (library_list fs sp) \<longrightarrow> distinct (library_list fs' sp)"
    by (simp add: old new lst'_def)
  show ?thesis
    unfolding sp_def [symmetric] g_def [symmetric]
    using first shape once dist second by blast
qed

theorem settings_add_guid_idempotent_witness:
  "\<exists>fs'.
     settings_add_guid
       [Path ''/'' [''Users'', ''me'', ''AppSettings.json'']
          \<mapsto> Document (JObj [(''theme'', JStr ''dark''), (SETTINGS_KEY, JList [JStr ''0F-1''])])]
       (Path ''/'' [''Users'', ''me'', ''Texts'']) ''ab-2''
       = Inr (fs', Path ''/'' [''Users'', ''me'', ''AppSettings.json''])
   \<and> library_list fs' (Path ''/'' [''Users'', ''me'', ''AppSettings.json''])
       = [JStr ''0F-1'', JStr ''AB-2'']
   \<and> settings_add_guid fs' (Path ''/'' [''Users'', ''me'', ''Texts'']) ''ab-2''
       = Inr (fs', Path ''/'' [''Users'', ''me'', ''AppSettings.json''])"
proof -
  define fs :: files where
    "fs = [Path ''/'' [''Users'', ''me'', ''AppSettings.json'']
          \<mapsto> Document (JObj [(''theme'', JStr ''dark''), (SETTINGS_KEY, JList [JStr ''0F-1''])])]"
  define d where "d = Path ''/'' [''Users'', ''me'', ''Texts'']"
  have sp: "get_appsettings_path d = Path ''/'' [''Users'', ''me'', ''AppSettings.json'']"
    by (simp add: d_def get_appsettings_path_def path_child_def path_parent_def)
  have up: "py_upper ''ab-2'' = ''AB-2''" by code_simp
  have old: "library_list fs (Path ''/'' [''Users'', ''me'', ''AppSettings.json'']) = [JStr ''0F-1'']"
    by (simp add: fs_def library_list_def load_settings_def SETTINGS_KEY_def)
  have ok: "fs (get_appsettings_path d) \<noteq> Some Garbage" by (simp add: sp fs_def)
  show ?thesis
    using settings_add_guid_idempotent [of fs d "''ab-2''", OF ok]
    unfolding sp old up unfolding fs_def d_def by auto
qed

section \<open>Sorting and stripping: auxiliary facts\<close>

lemma sorted_last_max: "sorted xs \<Longrightarrow> x \<in> set xs \<Longrightarrow> x \<le> last xs"
  by (induction xs) auto

lemma sort_reverse_hd:
  assumes "xs \<noteq> []"
  shows "hd (sort_reverse key xs) \<in> set xs \<and> (\<forall>y\<in>set xs. key y \<le> key (hd (sort_reverse key xs)))"
proof -
  define ys where "ys = sort_key key (rev xs)"
  have set_ys: "set ys = set xs" by (simp add: ys_def)
  then have ne: "ys \<noteq> []" using assms by auto
  have hd_eq: "hd (sort_reverse key xs) = last ys"
    by (simp add: sort_reverse_def ys_def hd_rev)
  have srt: "sorted (map key ys)" unfolding ys_def by (rule sorted_sort_key)
  have "\<forall>y\<in>set xs. key y \<le> key (last ys)"
  proof
    fix y assume "y \<in> set xs"
    then have "key y \<in> set (map key ys)" using set_ys by simp
    then have "key y \<le> last (map key ys)" using srt sorted_last_max by blast
    then show "key y \<le> key (last ys)" using ne by (simp add: last_map)
  qed
  moreover have "last ys \<in> set xs" using ne set_ys last_in_set by blast
  ultimately show ?thesis by (simp add: hd_eq)
qed

lemma strip_where_idem: "strip_where P (strip_where P s) = strip_where P s"
proof (cases "strip_where P s = []")
  case True
  have "strip_where P [] = []" by (simp add: strip_where_def lstrip_where_def rstrip_where_def)
  then show ?thesis unfolding True .
next
  case False
  define t where "t = strip_where P s"
  have ends: "\<not> P (hd t) \<and> \<not> P (last t)" and ne: "t \<noteq> []"
    using strip_where_ends [of P s] False by (auto simp: t_def)
  have l: "dropWhile P t = t" using ends by (simp add: dropWhile_eq_self_iff)
  have "dropWhile P (rev t) = rev t" using ends ne by (simp add: dropWhile_eq_self_iff hd_rev)
  then have "strip_where P t = t" by (simp add: strip_where_def lstrip_where_def rstrip_where_def l)
  then show ?thesis by (simp add: t_def)
qed

lemma py_strip_idem: "py_strip (py_strip s) = py_strip s"
  by (simp add: py_strip_def strip_where_idem)

section \<open>Computations: basic facts\<close>


lemma result_pair: "fst r = Inr x \<Longrightarrow> r = (Inr x, snd r)"
  by (simp add: prod_eq_iff)

section \<open>The scope: exceptions on exit\<close>

lemma exit_result: "exit os self exc h = (Inr False, snd (exit_try os self h))"
  by (simp add: exit_def finally_return_def)

text \<open>
  Claim C2. When \<open>__enter__\<close> has succeeded and the caller's work raises an exception, the
  \<open>with\<close> statement raises that very exception, whatever the machine answers on exit: also
  when a relaunch is attempted and the relaunch itself raises.
\<close>

theorem caller_exception_propagates:
  assumes "enter os self ha = (Inr entered, hb)"
    and "body hb = (Inl e, hc)"
  shows "fst (with_restarter os self body ha) = Inl e"
proof -
  have leave: "exit os entered (Some e) hc = (Inr False, snd (exit_try os entered hc))"
    by (rule exit_result)
  have "with_restarter os self body ha = (Inl e, snd (exit_try os entered hc))"
    unfolding with_restarter_def using assms leave by simp
  then show ?thesis by simp
qed

text \<open>
  Claim C3. \<open>__exit__\<close> never raises: whatever the relaunch does, also when it raises,
  \<open>__exit__\<close> returns \<open>False\<close>, having done what the relaunch did up to its failure. So a
  \<open>with\<close> block whose work returned a value ends normally with that value, and one whose
  work raised ends with the work's exception, never with an error of the relaunch.
\<close>

theorem relaunch_error_not_propagated:
  "fst (exit os st exc h) = Inr False
   \<and> snd (exit os st exc h) = snd (exit_try os st h)
   \<and> (enter os self ha = (Inr entered, hb) \<longrightarrow> body hb = (Inr v, hc) \<longrightarrow>
        fst (with_restarter os self body ha) = Inr (Some v))
   \<and> (enter os self ha = (Inr entered, hb) \<longrightarrow> body hb = (Inl e, hc) \<longrightarrow>
        fst (with_restarter os self body ha) = Inl e)"
proof -
  have leave: "exit os st' exc' h' = (Inr False, snd (exit_try os st' h'))" for st' exc' h'
    by (rule exit_result)
  have returned: "fst (exit os st exc h) = Inr False" by (simp add: leave)
  have done_so_far: "snd (exit os st exc h) = snd (exit_try os st h)" by (simp add: leave)
  have normal: "fst (with_restarter os self body ha) = Inr (Some v)"
    if "enter os self ha = (Inr entered, hb)" and "body hb = (Inr v, hc)"
    unfolding with_restarter_def using that leave [of entered None hc] by simp
  have raised: "fst (with_restarter os self body ha) = Inl e"
    if "enter os self ha = (Inr entered, hb)" and "body hb = (Inl e, hc)"
    unfolding with_restarter_def using that leave [of entered "Some e" hc] by simp
  show ?thesis using returned done_so_far normal raised by blast
qed

theorem caller_exception_propagates_witness:
  "fst (enter mac_open_fails camera_hub []) = Inr camera_hub_entered
   \<and> fst (exit_try mac_open_fails camera_hub_entered []) = Inl (CalledProcessError 1)
   \<and> fst (with_restarter mac_open_fails camera_hub
            (io_raise (Exception ''OSError'' ''disk full'')) [])
     = (Inl (Exception ''OSError'' ''disk full'') :: exn + unit option)"
proof -
  have f: "fst (enter mac_open_fails camera_hub []) = Inr camera_hub_entered"
    by code_simp
  then have e: "enter mac_open_fails camera_hub []
                = (Inr camera_hub_entered, snd (enter mac_open_fails camera_hub []))"
    by (simp add: prod_eq_iff)
  have b: "(io_raise (Exception ''OSError'' ''disk full'') :: unit io)
             (snd (enter mac_open_fails camera_hub []))
           = (Inl (Exception ''OSError'' ''disk full''), snd (enter mac_open_fails camera_hub []))"
    by (simp add: io_raise_def)
  have t: "fst (exit_try mac_open_fails camera_hub_entered []) = Inl (CalledProcessError 1)"
    by code_simp
  show ?thesis
    using caller_exception_propagates
      [where body = "io_raise (Exception ''OSError'' ''disk full'')", OF e b] f t
    by simp
qed

theorem relaunch_error_not_propagated_witness:
  "fst (exit_try mac_open_fails camera_hub_entered []) = Inl (CalledProcessError 1)
   \<and> exit mac_open_fails camera_hub_entered None []
       = (Inr False, [Spawn (open_b ''com.elgato.CameraHub'') (Exited 1 [])])
   \<and> fst (with_restarter mac_open_fails camera_hub (io_return (7::nat)) []) = Inr (Some 7)"
proof -
  have t: "exit_try mac_open_fails camera_hub_entered []
           = (Inl (CalledProcessError 1), [Spawn (open_b ''com.elgato.CameraHub'') (Exited 1 [])])"
    by code_simp
  have f: "fst (enter mac_open_fails camera_hub []) = Inr camera_hub_entered"
    by code_simp
  then have e: "enter mac_open_fails camera_hub []
                = (Inr camera_hub_entered, snd (enter mac_open_fails camera_hub []))"
    by (simp add: prod_eq_iff)
  have b: "io_return (7::nat) (snd (enter mac_open_fails camera_hub []))
           = (Inr 7, snd (enter mac_open_fails camera_hub []))"
    by (simp add: io_return_def)
  note r = relaunch_error_not_propagated [where os = mac_open_fails
      and st = camera_hub_entered and exc = None and h = "[]"
      and self = camera_hub and entered = camera_hub_entered
      and ha = "[]" and hb = "snd (enter mac_open_fails camera_hub [])"
      and body = "io_return (7::nat)" and v = 7
      and hc = "snd (enter mac_open_fails camera_hub [])"]
  have x: "exit mac_open_fails camera_hub_entered None []
       = (Inr False, [Spawn (open_b ''com.elgato.CameraHub'') (Exited 1 [])])"
    using r t by (simp add: prod_eq_iff)
  have w: "fst (with_restarter mac_open_fails camera_hub (io_return (7::nat)) []) = Inr (Some 7)"
    using r e b by simp
  show ?thesis using t x w by simp
qed

section \<open>The macOS locator\<close>

lemma run_Exited:
  "spawn os h cmd = Exited rc raw \<Longrightarrow>
   run os cmd False h = (Inr (py_strip raw), h @ [Spawn cmd (Exited rc raw)])"
  by (simp add: run_def subprocess_run_def io_bind_def io_return_def)

lemma mac_mdfind_app_eq:
  assumes "spawn os h (mdfind q) = Exited rc raw"
  shows "mac_mdfind_app os q h
       = (if mdfind_hits (py_strip raw) = []
          then (Inr None, h @ [Spawn (mdfind q) (Exited rc raw)])
          else (Inr (Some (hd (sort_reverse (score (py_lower q)) (mdfind_hits (py_strip raw))))),
                h @ [Spawn (mdfind q) (Exited rc raw)]))"
  using run_Exited [OF assms]
  by (simp add: mac_mdfind_app_def io_bind_def io_return_def)

text \<open>
  Claim C8. When \<^verbatim>\<open>mdfind\<close> can be started, \<open>mac_mdfind_app\<close> returns \<open>None\<close> if no line of
  its output ends in \<open>.app\<close>; otherwise it returns one of the hits, and no hit has a
  higher score. The score of a hit is the tuple of: 2 when its path starts with
  \<open>/Applications/\<close> or \<open>/System/Applications/\<close>; 2 when its lower-cased stem starts with
  the lower-cased search text; 1 when the lower-cased stem contains it; and the negated
  length of its path. Tuples compare lexicographically, the first component first.
\<close>

theorem mac_mdfind_app_best_hit:
  assumes "spawn os h (mdfind q) = Exited rc raw"
  shows "(filter (\<lambda>l. endswith l ''.app'') (splitlines (py_strip raw)) = [] \<longrightarrow>
            mac_mdfind_app os q h = (Inr None, h @ [Spawn (mdfind q) (Exited rc raw)]))
       \<and> (filter (\<lambda>l. endswith l ''.app'') (splitlines (py_strip raw)) \<noteq> [] \<longrightarrow>
            (\<exists>best. mac_mdfind_app os q h
                       = (Inr (Some best), h @ [Spawn (mdfind q) (Exited rc raw)])
                  \<and> best \<in> set (mdfind_hits (py_strip raw))
                  \<and> (\<forall>p\<in>set (mdfind_hits (py_strip raw)).
                        score (py_lower q) p \<le> score (py_lower q) best)))
       \<and> score s p
           = (if startswith (path_str p) ''/Applications/''
                 \<or> startswith (path_str p) ''/System/Applications/'' then 2 else 0,
              if startswith (py_lower (path_stem p)) s then 2 else 0,
              if contains (py_lower (path_stem p)) s then 1 else 0,
              - int (length (path_str p)))
       \<and> (((a1, b1, c1, d1) :: nat \<times> nat \<times> nat \<times> int) \<le> (a2, b2, c2, d2)
            \<longleftrightarrow> a1 < a2 \<or> a1 = a2 \<and> (b1 < b2 \<or> b1 = b2 \<and> (c1 < c2 \<or> c1 = c2 \<and> d1 \<le> d2)))"
proof -
  define out where "out = py_strip raw"
  define h1 where "h1 = h @ [Spawn (mdfind q) (Exited rc raw)]"
  have app: "mac_mdfind_app os q h
       = (if mdfind_hits out = [] then (Inr None, h1)
          else (Inr (Some (hd (sort_reverse (score (py_lower q)) (mdfind_hits out)))), h1))"
    unfolding out_def h1_def using assms by (rule mac_mdfind_app_eq)
  have empty_iff: "mdfind_hits out = [] \<longleftrightarrow>
      filter (\<lambda>l. endswith l ''.app'') (splitlines out) = []"
    by (simp add: mdfind_hits_def)
  have none: "filter (\<lambda>l. endswith l ''.app'') (splitlines out) = [] \<longrightarrow>
      mac_mdfind_app os q h = (Inr None, h1)"
    using app empty_iff by simp
  have some: "filter (\<lambda>l. endswith l ''.app'') (splitlines out) \<noteq> [] \<longrightarrow>
      (\<exists>best. mac_mdfind_app os q h = (Inr (Some best), h1)
           \<and> best \<in> set (mdfind_hits out)
           \<and> (\<forall>p\<in>set (mdfind_hits out). score (py_lower q) p \<le> score (py_lower q) best))"
  proof
    assume "filter (\<lambda>l. endswith l ''.app'') (splitlines out) \<noteq> []"
    then have ne: "mdfind_hits out \<noteq> []" using empty_iff by simp
    then have "mac_mdfind_app os q h
        = (Inr (Some (hd (sort_reverse (score (py_lower q)) (mdfind_hits out)))), h1)"
      using app by simp
    then show "\<exists>best. mac_mdfind_app os q h = (Inr (Some best), h1)
           \<and> best \<in> set (mdfind_hits out)
           \<and> (\<forall>p\<in>set (mdfind_hits out). score (py_lower q) p \<le> score (py_lower q) best)"
      using sort_reverse_hd [OF ne, of "score (py_lower q)"] by blast
  qed
  have sc: "score s p
           = (if startswith (path_str p) ''/Applications/''
                 \<or> startswith (path_str p) ''/System/Applications/'' then 2 else 0,
              if startswith (py_lower (path_stem p)) s then 2 else 0,
              if contains (py_lower (path_stem p)) s then 1 else 0,
              - int (length (path_str p)))"
    by (simp add: score_def in_applications_def)
  have lex: "((a1, b1, c1, d1) :: nat \<times> nat \<times> nat \<times> int) \<le> (a2, b2, c2, d2)
            \<longleftrightarrow> a1 < a2 \<or> a1 = a2 \<and> (b1 < b2 \<or> b1 = b2 \<and> (c1 < c2 \<or> c1 = c2 \<and> d1 \<le> d2))"
    by (auto simp: less_eq_prod_def less_prod_def)
  show ?thesis
    using none some sc lex unfolding out_def h1_def by blast
qed

theorem mac_mdfind_app_best_hit_witness:
  "fst (mac_mdfind_app mac_open_fails ''Camera Hub'' [])
     = Inr (Some (Path ''/'' [''Applications'', ''Camera Hub.app'']))
   \<and> score (py_lower ''Camera Hub'') (Path ''/'' [''Users'', ''me'', ''Downloads'', ''Camera Hub.app''])
       \<le> score (py_lower ''Camera Hub'') (Path ''/'' [''Applications'', ''Camera Hub.app''])
   \<and> score (py_lower ''Camera Hub'') (Path ''/'' [''Applications'', ''Camera Hub.app''])
       = (2, 2, 1, - 28)
   \<and> score (py_lower ''Camera Hub'') (Path ''/'' [''Users'', ''me'', ''Downloads'', ''Camera Hub.app''])
       = (0, 2, 1, - 34)"
proof -
  define raw where "raw = ''/Users/me/Downloads/Camera Hub.app'' @ [char_of (10::nat)]
                               @ ''/Applications/Camera Hub.app'' @ [char_of (10::nat)]"
  define dl where "dl = Path ''/'' [''Users'', ''me'', ''Downloads'', ''Camera Hub.app'']"
  define app where "app = Path ''/'' [''Applications'', ''Camera Hub.app'']"
  have sp: "spawn mac_open_fails [] (mdfind ''Camera Hub'') = Exited 0 raw"
    by (simp add: mac_open_fails_def mac_spawn_def raw_def)
  have hits: "mdfind_hits (py_strip raw) = [dl, app]"
    unfolding raw_def dl_def app_def by code_simp
  have lines: "filter (\<lambda>l. endswith l ''.app'') (splitlines (py_strip raw)) \<noteq> []"
    using hits by (auto simp: mdfind_hits_def)
  have ev: "fst (mac_mdfind_app mac_open_fails ''Camera Hub'' []) = Inr (Some app)"
    unfolding app_def by code_simp
  note t = mac_mdfind_app_best_hit [OF sp]
  from t lines obtain best where
    b: "mac_mdfind_app mac_open_fails ''Camera Hub'' []
          = (Inr (Some best), [] @ [Spawn (mdfind ''Camera Hub'') (Exited 0 raw)])"
    and m: "\<forall>p\<in>set (mdfind_hits (py_strip raw)).
              score (py_lower ''Camera Hub'') p \<le> score (py_lower ''Camera Hub'') best"
    by blast
  have "best = app" using b ev by simp
  then have le: "score (py_lower ''Camera Hub'') dl \<le> score (py_lower ''Camera Hub'') app"
    using m hits by simp
  have s1: "score (py_lower ''Camera Hub'') app = (2, 2, 1, - 28)"
    unfolding app_def by code_simp
  have s2: "score (py_lower ''Camera Hub'') dl = (0, 2, 1, - 34)"
    unfolding dl_def by code_simp
  show ?thesis using ev le s1 s2 unfolding app_def dl_def by blast
qed

section \<open>The Windows launch resolver\<close>

lemma ps_run_stripped:
  assumes "ps_run os script arg check h = (Inr out, h1)"
  shows "py_strip out = out"
  using assms
  by (auto simp: ps_run_def io_bind_def io_return_def py_strip_idem split: prod.splits sum.splits)

text \<open>
  Claim C7. Given a captured executable path that is not empty, \<open>win_resolve_launch_target\<close>
  returns the plan \<open>exe\<close> with exactly that path and asks the machine nothing, whatever
  shortcuts and packages exist. Without a captured path it asks for a shortcut target
  first and returns \<open>exe\<close> with it; when there is none it asks for a package and returns
  \<open>uwp\<close> with its identifier; when there is none either it returns \<open>alias\<close> with the bare
  search text. An error of a PowerShell call (no PowerShell on the machine) ends the
  resolution with that error.
\<close>

theorem win_resolve_launch_target_order:
  "(p \<noteq> [] \<longrightarrow> win_resolve_launch_target os q (Some p) h = (Inr (''exe'', p), h))
   \<and> (fb = None \<or> fb = Some [] \<longrightarrow>
        (ps_run os script_lnk (Some q) False h = (Inl e, ha) \<longrightarrow>
           win_resolve_launch_target os q fb h = (Inl e, ha))
      \<and> (ps_run os script_lnk (Some q) False h = (Inr lnk_target, ha) \<longrightarrow>
           (lnk_target \<noteq> [] \<longrightarrow>
              win_resolve_launch_target os q fb h = (Inr (''exe'', lnk_target), ha))
         \<and> (lnk_target = [] \<longrightarrow>
              (ps_run os script_uwp (Some q) False ha = (Inl e', hb) \<longrightarrow>
                 win_resolve_launch_target os q fb h = (Inl e', hb))
            \<and> (ps_run os script_uwp (Some q) False ha = (Inr appid, hb) \<longrightarrow>
                 (appid \<noteq> [] \<longrightarrow>
                    win_resolve_launch_target os q fb h = (Inr (''uwp'', appid), hb))
               \<and> (appid = [] \<longrightarrow>
                    win_resolve_launch_target os q fb h = (Inr (''alias'', q), hb))))))"
proof -
  have captured: "p \<noteq> [] \<longrightarrow> win_resolve_launch_target os q (Some p) h = (Inr (''exe'', p), h)"
    by (simp add: win_resolve_launch_target_def io_return_def)
  have rest: "fb = None \<or> fb = Some [] \<Longrightarrow>
      win_resolve_launch_target os q fb h
      = io_bind (ps_run os script_lnk (Some q) False) (\<lambda>out.
          if py_strip out \<noteq> [] then io_return (''exe'', py_strip out)
          else
            io_bind (ps_run os script_uwp (Some q) False) (\<lambda>out2.
              if py_strip out2 \<noteq> [] then io_return (''uwp'', py_strip out2)
              else io_return (''alias'', q))) h"
    by (auto simp: win_resolve_launch_target_def)
  have lnk_err: "fb = None \<or> fb = Some [] \<Longrightarrow>
      ps_run os script_lnk (Some q) False h = (Inl e, ha) \<Longrightarrow>
      win_resolve_launch_target os q fb h = (Inl e, ha)"
    by (simp add: rest io_bind_def)
  have lnk_hit: "fb = None \<or> fb = Some [] \<Longrightarrow>
      ps_run os script_lnk (Some q) False h = (Inr lnk_target, ha) \<Longrightarrow> lnk_target \<noteq> [] \<Longrightarrow>
      win_resolve_launch_target os q fb h = (Inr (''exe'', lnk_target), ha)"
    using ps_run_stripped [of os script_lnk "Some q" False h lnk_target ha]
    by (simp add: rest io_bind_def io_return_def)
  have uwp_err: "fb = None \<or> fb = Some [] \<Longrightarrow>
      ps_run os script_lnk (Some q) False h = (Inr lnk_target, ha) \<Longrightarrow> lnk_target = [] \<Longrightarrow>
      ps_run os script_uwp (Some q) False ha = (Inl e', hb) \<Longrightarrow>
      win_resolve_launch_target os q fb h = (Inl e', hb)"
    using ps_run_stripped [of os script_lnk "Some q" False h lnk_target ha]
    by (simp add: rest io_bind_def)
  have uwp_hit: "fb = None \<or> fb = Some [] \<Longrightarrow>
      ps_run os script_lnk (Some q) False h = (Inr lnk_target, ha) \<Longrightarrow> lnk_target = [] \<Longrightarrow>
      ps_run os script_uwp (Some q) False ha = (Inr appid, hb) \<Longrightarrow> appid \<noteq> [] \<Longrightarrow>
      win_resolve_launch_target os q fb h = (Inr (''uwp'', appid), hb)"
    using ps_run_stripped [of os script_lnk "Some q" False h lnk_target ha]
      ps_run_stripped [of os script_uwp "Some q" False ha appid hb]
    by (simp add: rest io_bind_def io_return_def)
  have bare: "fb = None \<or> fb = Some [] \<Longrightarrow>
      ps_run os script_lnk (Some q) False h = (Inr lnk_target, ha) \<Longrightarrow> lnk_target = [] \<Longrightarrow>
      ps_run os script_uwp (Some q) False ha = (Inr appid, hb) \<Longrightarrow> appid = [] \<Longrightarrow>
      win_resolve_launch_target os q fb h = (Inr (''alias'', q), hb)"
    using ps_run_stripped [of os script_lnk "Some q" False h lnk_target ha]
      ps_run_stripped [of os script_uwp "Some q" False ha appid hb]
    by (simp add: rest io_bind_def io_return_def)
  show ?thesis
    using captured lnk_err lnk_hit uwp_err uwp_hit bare by blast
qed

theorem win_resolve_launch_target_order_witness:
  "win_resolve_launch_target win_pc ''notepad'' (Some ''D:/tools/np.exe'') []
     = (Inr (''exe'', ''D:/tools/np.exe''), [])
   \<and> fst (win_resolve_launch_target win_pc ''notepad'' None [])
       = Inr (''exe'', ''C:/Windows/notepad.exe'')
   \<and> fst (win_resolve_launch_target win_pc ''calc'' None [])
       = Inr (''uwp'', ''Microsoft.WindowsCalculator_8wekyb3d8bbwe!App'')
   \<and> fst (win_resolve_launch_target win_pc ''nosuchapp'' None []) = Inr (''alias'', ''nosuchapp'')"
proof -
  have c: "win_resolve_launch_target win_pc ''notepad'' (Some ''D:/tools/np.exe'') []
     = (Inr (''exe'', ''D:/tools/np.exe''), [])"
    using win_resolve_launch_target_order
      [where p = "''D:/tools/np.exe''" and os = win_pc and q = "''notepad''" and h = "[]"]
    by simp
  have l1: "fst (ps_run win_pc script_lnk (Some ''notepad'') False [])
            = Inr ''C:/Windows/notepad.exe''"
    by code_simp
  have s: "fst (win_resolve_launch_target win_pc ''notepad'' None [])
       = Inr (''exe'', ''C:/Windows/notepad.exe'')"
    using win_resolve_launch_target_order
      [where fb = None and os = win_pc and q = "''notepad''" and h = "[]"
        and lnk_target = "''C:/Windows/notepad.exe''"
        and ha = "snd (ps_run win_pc script_lnk (Some ''notepad'') False [])"]
      result_pair [OF l1]
    by simp
  define hx where "hx = snd (ps_run win_pc script_lnk (Some ''calc'') False [])"
  have l2: "fst (ps_run win_pc script_lnk (Some ''calc'') False []) = Inr []"
    by code_simp
  have u2: "fst (ps_run win_pc script_uwp (Some ''calc'') False
                  (snd (ps_run win_pc script_lnk (Some ''calc'') False [])))
            = Inr ''Microsoft.WindowsCalculator_8wekyb3d8bbwe!App''"
    by code_simp
  have u: "fst (win_resolve_launch_target win_pc ''calc'' None [])
       = Inr (''uwp'', ''Microsoft.WindowsCalculator_8wekyb3d8bbwe!App'')"
    using win_resolve_launch_target_order
      [where fb = None and os = win_pc and q = "''calc''" and h = "[]"
        and lnk_target = "[]" and ha = hx
        and appid = "''Microsoft.WindowsCalculator_8wekyb3d8bbwe!App''"
        and hb = "snd (ps_run win_pc script_uwp (Some ''calc'') False hx)"]
      result_pair [OF l2] result_pair [OF u2]
    by (simp add: hx_def)
  define hy where "hy = snd (ps_run win_pc script_lnk (Some ''nosuchapp'') False [])"
  have l3: "fst (ps_run win_pc script_lnk (Some ''nosuchapp'') False []) = Inr []"
    by code_simp
  have u3: "fst (ps_run win_pc script_uwp (Some ''nosuchapp'') False
                  (snd (ps_run win_pc script_lnk (Some ''nosuchapp'') False []))) = Inr []"
    by code_simp
  have a: "fst (win_resolve_launch_target win_pc ''nosuchapp'' None [])
           = Inr (''alias'', ''nosuchapp'')"
    using win_resolve_launch_target_order
      [where fb = None and os = win_pc and q = "''nosuchapp''" and h = "[]"
        and lnk_target = "[]" and ha = hy and appid = "[]"
        and hb = "snd (ps_run win_pc script_uwp (Some ''nosuchapp'') False hy)"]
      result_pair [OF l3] result_pair [OF u3]
    by (simp add: hy_def)
  show ?thesis using c s u a by blast
qed

section \<open>Stopping the application\<close>

lemma subprocess_run_log:
  "snd (subprocess_run os cmd check h) = h @ [Spawn cmd (spawn os h cmd)]"
  by (simp add: subprocess_run_def split: started.splits)

lemma run_log: "snd (run os cmd check h) = h @ [Spawn cmd (spawn os h cmd)]"
  using subprocess_run_log [of os cmd check h]
  by (auto simp: run_def io_bind_def io_return_def split: prod.splits sum.splits)

lemma mac_count_running_procs_log:
  "snd (mac_count_running_procs os b h) = h @ [Spawn (osa_count b) (spawn os h (osa_count b))]"
  using run_log [of os "osa_count b" False h]
  by (auto simp: mac_count_running_procs_def io_bind_def io_return_def
      split: prod.splits sum.splits)

lemma mac_pids_for_log:
  "snd (mac_pids_for os b h) = h @ [Spawn (osa_unix_ids b) (spawn os h (osa_unix_ids b))]"
  using run_log [of os "osa_unix_ids b" False h]
  by (auto simp: mac_pids_for_def io_bind_def io_return_def io_of_def
      split: prod.splits sum.splits)

lemma spawn_not_force_kill:
  "(\<forall>exe arg. c \<noteq> ps exe script_kill arg) \<Longrightarrow> \<not> is_force_kill (Spawn c r)"
  by (cases c) (auto simp: is_force_kill_def)

text \<open>
  Claim C6. \<open>win_quit_pids\<close> on an empty list of process ids returns at once: it does not
  raise and leaves the log as it was, so nothing is closed or killed. \<open>mac_quit_app\<close> on a
  bundle without running instances (\<^verbatim>\<open>osascript\<close> can be started, every count of its
  processes is zero and every list of its process ids is empty) returns without raising
  and adds no forced termination to the log, whatever the timeout and the flag
  \<open>force_after_timeout\<close> are.
\<close>

theorem stop_without_instances:
  "win_quit_pids os [] t force h = (Inr (), h)
   \<and> ((\<forall>h'. spawn os h' (osa_quit b) \<noteq> NoSuchFile)
        \<and> (\<forall>h'. fst (mac_count_running_procs os b h') = Inr 0)
        \<and> (\<forall>h'. fst (mac_pids_for os b h') = Inr [])
      \<longrightarrow> fst (mac_quit_app os b t force h) = Inr ()
          \<and> filter is_force_kill (snd (mac_quit_app os b t force h)) = filter is_force_kill h)"
proof -
  have win: "win_quit_pids os [] t force h = (Inr (), h)"
    by (simp add: win_quit_pids_def io_return_def)
  have mac: "fst (mac_quit_app os b t force h) = Inr ()
          \<and> filter is_force_kill (snd (mac_quit_app os b t force h)) = filter is_force_kill h"
    if quit: "\<forall>h'. spawn os h' (osa_quit b) \<noteq> NoSuchFile"
      and zero: "\<forall>h'. fst (mac_count_running_procs os b h') = Inr 0"
      and none: "\<forall>h'. fst (mac_pids_for os b h') = Inr []"
  proof -
    obtain rc out where q: "spawn os h (osa_quit b) = Exited rc out"
      using quit by (cases "spawn os h (osa_quit b)") auto
    define h1 where "h1 = h @ [Spawn (osa_quit b) (Exited rc out)]"
    have sr: "subprocess_run os (osa_quit b) False h = (Inr (rc, out), h1)"
      by (simp add: subprocess_run_def q h1_def)
    have cnt: "mac_count_running_procs os b h'
               = (Inr 0, h' @ [Spawn (osa_count b) (spawn os h' (osa_count b))])" for h'
      using zero mac_count_running_procs_log [of os b h'] by (simp add: prod_eq_iff)
    have pids: "mac_pids_for os b h'
               = (Inr [], h' @ [Spawn (osa_unix_ids b) (spawn os h' (osa_unix_ids b))])" for h'
      using none mac_pids_for_log [of os b h'] by (simp add: prod_eq_iff)
    have k1: "filter is_force_kill h1 = filter is_force_kill h"
      by (simp add: h1_def spawn_not_force_kill)
    show ?thesis
    proof (cases "polls os h1 t")
      case 0
      then have "mac_quit_app os b t force h
          = (if force then (Inr (), h1 @ [Spawn (osa_unix_ids b) (spawn os h1 (osa_unix_ids b))])
             else (Inr (), h1))"
        by (simp add: mac_quit_app_def io_bind_def sr pids io_return_def)
      then show ?thesis using k1 by (simp add: spawn_not_force_kill)
    next
      case (Suc n)
      then have "mac_quit_app os b t force h
          = (Inr (), h1 @ [Spawn (osa_count b) (spawn os h1 (osa_count b))])"
        by (simp add: mac_quit_app_def io_bind_def sr cnt io_return_def)
      then show ?thesis using k1 by (simp add: spawn_not_force_kill)
    qed
  qed
  show ?thesis using win mac by blast
qed

text \<open>
  Claim C5. The code does not do what the claim says. When the polling loop of
  \<open>win_quit_pids\<close> ends at the timeout with a process still alive and
  \<open>force_after_timeout\<close> is set, the one \<^verbatim>\<open>Stop-Process -Force\<close> script that follows is given
  every process id of the original list, also those that have exited: the list \<open>alive\<close>
  computed by the loop is used for the emptiness test only.
\<close>

theorem win_quit_pids_force_argument:
  assumes "pids \<noteq> []"
    and "ps_run os script_close (pid_arg pids) False h = (Inr out, ha)"
    and "win_wait os pids (polls os ha t) ha = (Inr False, hb)"
    and "ps_exe os hb = (Inr exe, hc)"
  shows "snd (win_quit_pids os pids t True h)
         = hc @ [Spawn (ps exe script_kill (pid_arg pids))
                   (spawn os hc (ps exe script_kill (pid_arg pids)))]
       \<and> pid_arg pids = Some (py_join '','' (map str_int pids))"
proof -
  have "snd (ps_run os script_kill (pid_arg pids) False hb)
        = snd (subprocess_run os (ps exe script_kill (pid_arg pids)) False hc)"
    using assms(4)
    by (auto simp: ps_run_def io_bind_def io_return_def split: prod.splits sum.splits)
  then have k: "snd (ps_run os script_kill (pid_arg pids) False hb)
        = hc @ [Spawn (ps exe script_kill (pid_arg pids))
                   (spawn os hc (ps exe script_kill (pid_arg pids)))]"
    by (simp add: subprocess_run_log)
  have "snd (win_quit_pids os pids t True h)
        = snd (ps_run os script_kill (pid_arg pids) False hb)"
    using assms(1,2,3)
    by (auto simp: win_quit_pids_def io_bind_def io_return_def split: prod.splits sum.splits)
  then show ?thesis using k by (simp add: pid_arg_def)
qed

theorem stop_without_instances_witness:
  "win_quit_pids mac_idle [] 20 True [] = (Inr (), [])
   \<and> fst (mac_quit_app mac_idle ''com.elgato.CameraHub'' 20 True []) = Inr ()
   \<and> filter is_force_kill (snd (mac_quit_app mac_idle ''com.elgato.CameraHub'' 20 True [])) = []
   \<and> snd (mac_quit_app mac_idle ''com.elgato.CameraHub'' 20 True [])
       = [Spawn (osa_quit ''com.elgato.CameraHub'') (Exited 0 []),
          Spawn (osa_unix_ids ''com.elgato.CameraHub'') (Exited 0 [])]"
proof -
  define b where "b = ''com.elgato.CameraHub''"
  have s0: "py_strip ''0'' = ''0''" by code_simp
  have i0: "py_int ''0'' = Some 0" by code_simp
  have se: "py_strip [] = []" by code_simp
  have quit: "\<forall>h'. spawn mac_idle h' (osa_quit b) \<noteq> NoSuchFile"
    by (simp add: mac_idle_def idle_spawn_def)
  have zero: "\<forall>h'. fst (mac_count_running_procs mac_idle b h') = Inr 0"
    by (simp add: mac_count_running_procs_def run_def subprocess_run_def io_bind_def
        io_return_def mac_idle_def idle_spawn_def s0 i0)
  have none: "\<forall>h'. fst (mac_pids_for mac_idle b h') = Inr []"
    by (simp add: mac_pids_for_def run_def subprocess_run_def io_bind_def
        io_return_def mac_idle_def idle_spawn_def se)
  note t = stop_without_instances [where os = mac_idle and b = b and t = 20 and force = True
      and h = "[]"]
  have w: "win_quit_pids mac_idle [] 20 True [] = (Inr (), [])" using t by blast
  have m: "fst (mac_quit_app mac_idle b 20 True []) = Inr ()
           \<and> filter is_force_kill (snd (mac_quit_app mac_idle b 20 True [])) = []"
    using t quit zero none by simp
  have l: "snd (mac_quit_app mac_idle ''com.elgato.CameraHub'' 20 True [])
       = [Spawn (osa_quit ''com.elgato.CameraHub'') (Exited 0 []),
          Spawn (osa_unix_ids ''com.elgato.CameraHub'') (Exited 0 [])]"
    by code_simp
  show ?thesis using w m l unfolding b_def by blast
qed

theorem win_quit_pids_force_argument_witness:
  "fst (alive_pids win_pc [111, 222] []) = Inr [222]
   \<and> filter is_force_kill (snd (win_quit_pids win_pc [111, 222] 20 True []))
       = [Spawn (ps powershell script_kill (Some ''111,222'')) (Exited 0 [])]"
proof -
  define ha where "ha = snd (ps_run win_pc script_close (pid_arg [111, 222]) False [])"
  define hb where "hb = snd (win_wait win_pc [111, 222] (polls win_pc ha 20) ha)"
  define hc where "hc = snd (ps_exe win_pc hb)"
  have a: "fst (alive_pids win_pc [111, 222] []) = Inr [222]" by code_simp
  have c1: "fst (ps_run win_pc script_close (pid_arg [111, 222]) False []) = Inr []"
    by code_simp
  have c2: "fst (win_wait win_pc [111, 222] (polls win_pc ha 20) ha) = Inr False"
    unfolding ha_def by code_simp
  have c3: "fst (ps_exe win_pc hb) = Inr powershell"
    unfolding hb_def ha_def by code_simp
  have arg: "pid_arg [111, 222] = Some ''111,222''" by code_simp
  have sp: "spawn win_pc hc (ps powershell script_kill (Some ''111,222'')) = Exited 0 []"
    by (simp add: win_pc_def win_spawn_def)
  have nk: "filter is_force_kill hc = []"
    unfolding hc_def hb_def ha_def by code_simp
  have f1: "ps_run win_pc script_close (pid_arg [111, 222]) False [] = (Inr [], ha)"
    unfolding ha_def using c1 by (rule result_pair)
  have f2: "win_wait win_pc [111, 222] (polls win_pc ha 20) ha = (Inr False, hb)"
    unfolding hb_def using c2 by (rule result_pair)
  have f3: "ps_exe win_pc hb = (Inr powershell, hc)"
    unfolding hc_def using c3 by (rule result_pair)
  have ne: "[111, 222 :: int] \<noteq> []" by simp
  have "snd (win_quit_pids win_pc [111, 222] 20 True [])
         = hc @ [Spawn (ps powershell script_kill (Some ''111,222'')) (Exited 0 [])]"
    using win_quit_pids_force_argument [OF ne f1 f2 f3] unfolding arg sp by blast
  then have "filter is_force_kill (snd (win_quit_pids win_pc [111, 222] 20 True []))
       = [Spawn (ps powershell script_kill (Some ''111,222'')) (Exited 0 [])]"
    using nk by (simp add: is_force_kill_def)
  then show ?thesis using a by blast
qed

section \<open>Entering and leaving the scope\<close>

lemma py_strip_Nil: "py_strip [] = []"
  by (simp add: py_strip_def strip_where_def lstrip_where_def rstrip_where_def)

lemma snd_bind_return: "snd (io_bind m (\<lambda>_. io_return x) h) = snd (m h)"
  by (auto simp: io_bind_def io_return_def split: prod.splits sum.splits)

lemma exit_try_log:
  assumes "launch_info st = Some plan"
    and "(platform st = ''mac'' \<and> (\<exists>b. plan = mac_info b))
         \<or> (platform st = ''win'' \<and> (\<exists>m v. plan = win_info m v))"
  shows "snd (exit_try os st h) = (if should_restart st then snd (relaunch os st h) else h)"
  using assms
  by (auto simp: exit_try_def relaunch_def snd_bind_return io_return_def)

text \<open>
  Claim C4, as amended. On macOS, when \<^verbatim>\<open>mdfind\<close> reports no application bundle for the
  search text, the \<open>with\<close> statement raises the \<open>RuntimeError\<close> of \<open>__enter__\<close> and has
  done nothing but the one \<^verbatim>\<open>mdfind\<close> query, whatever the caller's work is: the work does
  not run and nothing is launched. On Windows, when no process, no shortcut and no
  package matches, \<open>__enter__\<close> succeeds with the plan \<open>alias\<close> on the bare search text and
  \<open>should_restart\<close> equal to \<open>restart_if_not_running\<close>; the caller's work runs, its
  outcome is the outcome of the statement, and the bare name is launched on exit exactly
  when \<open>restart_if_not_running\<close> is set.
\<close>

theorem enter_without_match:
  "(platform self = ''mac''
      \<and> spawn os h (mdfind (search self)) = Exited rc raw
      \<and> filter (\<lambda>l. endswith l ''.app'') (splitlines (py_strip raw)) = []
    \<longrightarrow> with_restarter os self body h
          = (Inl (RuntimeError (No_application_matching (search self))),
             h @ [Spawn (mdfind (search self)) (Exited rc raw)]))
   \<and> (platform self = ''win''
      \<and> win_find_running_pids os (search self) h = (Inr [], ha)
      \<and> ps_run os script_lnk (Some (search self)) False ha = (Inr [], hb)
      \<and> ps_run os script_uwp (Some (search self)) False hb = (Inr [], hc)
    \<longrightarrow> enter os self h
          = (Inr (self\<lparr>should_restart := restart_if_not_running self,
                       launch_info := Some (win_info ''alias'' (search self))\<rparr>), hc)
        \<and> fst (with_restarter os self body h)
          = (case fst (body hc) of Inl e \<Rightarrow> Inl e | Inr v \<Rightarrow> Inr (Some v))
        \<and> snd (with_restarter os self body h)
          = (if restart_if_not_running self
             then snd (win_launch os ''alias'' (search self) (snd (body hc)))
             else snd (body hc)))"
proof -
  have mac: "with_restarter os self body h
          = (Inl (RuntimeError (No_application_matching (search self))),
             h @ [Spawn (mdfind (search self)) (Exited rc raw)])"
    if "platform self = ''mac''" and sp: "spawn os h (mdfind (search self)) = Exited rc raw"
      and "filter (\<lambda>l. endswith l ''.app'') (splitlines (py_strip raw)) = []"
  proof -
    have "mdfind_hits (py_strip raw) = []" using that(3) by (simp add: mdfind_hits_def)
    then have "mac_mdfind_app os (search self) h
        = (Inr None, h @ [Spawn (mdfind (search self)) (Exited rc raw)])"
      using mac_mdfind_app_eq [OF sp] by simp
    then have "enter os self h
        = (Inl (RuntimeError (No_application_matching (search self))),
             h @ [Spawn (mdfind (search self)) (Exited rc raw)])"
      using that(1) by (simp add: enter_def enter_mac_def io_bind_def io_raise_def)
    then show ?thesis by (simp add: with_restarter_def)
  qed
  define entered where "entered = self\<lparr>should_restart := restart_if_not_running self,
                       launch_info := Some (win_info ''alias'' (search self))\<rparr>"
  have win: "enter os self h = (Inr entered, hc)
        \<and> fst (with_restarter os self body h)
          = (case fst (body hc) of Inl e \<Rightarrow> Inl e | Inr v \<Rightarrow> Inr (Some v))
        \<and> snd (with_restarter os self body h)
          = (if restart_if_not_running self
             then snd (win_launch os ''alias'' (search self) (snd (body hc)))
             else snd (body hc))"
    if pf: "platform self = ''win''"
      and f: "win_find_running_pids os (search self) h = (Inr [], ha)"
      and l: "ps_run os script_lnk (Some (search self)) False ha = (Inr [], hb)"
      and u: "ps_run os script_uwp (Some (search self)) False hb = (Inr [], hc)"
  proof -
    have res: "win_resolve_launch_target os (search self) None ha
               = (Inr (''alias'', search self), hc)"
      by (simp add: win_resolve_launch_target_def io_bind_def l u py_strip_Nil io_return_def)
    have e: "enter os self h = (Inr entered, hc)"
      using pf by (simp add: enter_def enter_win_def io_bind_def f io_return_def res entered_def)
    have lg: "snd (exit_try os entered hx)
              = (if restart_if_not_running self
                 then snd (win_launch os ''alias'' (search self) hx) else hx)" for hx
      using exit_try_log [of entered "win_info ''alias'' (search self)" os hx] pf
      by (simp add: entered_def relaunch_def)
    obtain r hd where b: "body hc = (r, hd)" by (cases "body hc")
    have w: "with_restarter os self body h
             = (case r of Inl e \<Rightarrow> Inl e | Inr v \<Rightarrow> Inr (Some v), snd (exit_try os entered hd))"
      by (cases r) (simp_all add: with_restarter_def e b exit_result)
    show ?thesis using e w lg b by simp
  qed
  show ?thesis using mac win unfolding entered_def by blast
qed










theorem enter_without_match_counterexample:
  "fst (win_find_running_pids win_pc ''nosuchapp'' []) = Inr []
   \<and> fst (win_resolve_launch_target win_pc ''nosuchapp'' None []) = Inr (''alias'', ''nosuchapp'')
   \<and> fst (enter win_pc no_such_app_win [])
       = Inr (no_such_app_win\<lparr>should_restart := True,
                                launch_info := Some (win_info ''alias'' ''nosuchapp'')\<rparr>)
   \<and> fst (with_restarter win_pc no_such_app_win time_sleep []) = Inr (Some ())
   \<and> filter (\<lambda>ev. ev = Sleep \<or> is_launch ev)
         (snd (with_restarter win_pc no_such_app_win time_sleep []))
       = [Sleep, Spawn (ps powershell ps_start_alias (Some ''nosuchapp'')) (Exited 0 [])]"
proof -
  have a: "fst (win_find_running_pids win_pc ''nosuchapp'' []) = Inr []" by code_simp
  have b: "fst (win_resolve_launch_target win_pc ''nosuchapp'' None [])
           = Inr (''alias'', ''nosuchapp'')" by code_simp
  have c: "fst (enter win_pc no_such_app_win [])
       = Inr (no_such_app_win\<lparr>should_restart := True,
                                launch_info := Some (win_info ''alias'' ''nosuchapp'')\<rparr>)"
    by code_simp
  have d: "fst (with_restarter win_pc no_such_app_win time_sleep []) = Inr (Some ())"
    by code_simp
  have e: "filter (\<lambda>ev. ev = Sleep \<or> is_launch ev)
         (snd (with_restarter win_pc no_such_app_win time_sleep []))
       = [Sleep, Spawn (ps powershell ps_start_alias (Some ''nosuchapp'')) (Exited 0 [])]"
    by code_simp
  show ?thesis by (intro conjI) (rule a b c d e)+
qed

theorem enter_without_match_witness:
  "with_restarter mac_idle no_such_app_mac time_sleep []
     = (Inl (RuntimeError (No_application_matching ''nosuchapp'')),
        [Spawn (mdfind ''nosuchapp'') (Exited 0 ''/Users/me/Desktop/notes.txt'')])
   \<and> fst (with_restarter win_pc no_such_app_win (io_raise (Exception ''KeyError'' ''GUID'')) [])
       = (Inl (Exception ''KeyError'' ''GUID'') :: exn + unit option)"
proof -
  have q: "search no_such_app_mac = ''nosuchapp''" "platform no_such_app_mac = ''mac''"
    by (simp_all add: no_such_app_mac_def init_def)
  have sp: "spawn mac_idle [] (mdfind (search no_such_app_mac))
            = Exited 0 ''/Users/me/Desktop/notes.txt''"
    by (simp add: q mac_idle_def idle_spawn_def)
  have nl: "filter (\<lambda>l. endswith l ''.app'') (splitlines (py_strip ''/Users/me/Desktop/notes.txt''))
            = []"
    by code_simp
  have m: "with_restarter mac_idle no_such_app_mac time_sleep []
     = (Inl (RuntimeError (No_application_matching ''nosuchapp'')),
        [Spawn (mdfind ''nosuchapp'') (Exited 0 ''/Users/me/Desktop/notes.txt'')])"
    using enter_without_match [where self = no_such_app_mac and os = mac_idle and h = "[]"
        and rc = 0 and raw = "''/Users/me/Desktop/notes.txt''" and body = time_sleep]
      sp nl q
    by simp
  have w: "search no_such_app_win = ''nosuchapp''" "platform no_such_app_win = ''win''"
    by (simp_all add: no_such_app_win_def init_def startswith_def)
  define ha where "ha = snd (win_find_running_pids win_pc ''nosuchapp'' [])"
  define hb where "hb = snd (ps_run win_pc script_lnk (Some ''nosuchapp'') False ha)"
  define hc where "hc = snd (ps_run win_pc script_uwp (Some ''nosuchapp'') False hb)"
  have f1: "fst (win_find_running_pids win_pc ''nosuchapp'' []) = Inr []" by code_simp
  have f2: "fst (ps_run win_pc script_lnk (Some ''nosuchapp'') False ha) = Inr []"
    unfolding ha_def by code_simp
  have f3: "fst (ps_run win_pc script_uwp (Some ''nosuchapp'') False hb) = Inr []"
    unfolding hb_def ha_def by code_simp
  have g1: "win_find_running_pids win_pc (search no_such_app_win) [] = (Inr [], ha)"
    unfolding ha_def w using f1 by (rule result_pair)
  have g2: "ps_run win_pc script_lnk (Some (search no_such_app_win)) False ha = (Inr [], hb)"
    unfolding hb_def w using f2 by (rule result_pair)
  have g3: "ps_run win_pc script_uwp (Some (search no_such_app_win)) False hb = (Inr [], hc)"
    unfolding hc_def w using f3 by (rule result_pair)
  have x: "fst (with_restarter win_pc no_such_app_win (io_raise (Exception ''KeyError'' ''GUID'')) [])
       = (Inl (Exception ''KeyError'' ''GUID'') :: exn + unit option)"
    using enter_without_match [where self = no_such_app_win and os = win_pc and h = "[]"
        and ha = ha and hb = hb and hc = hc
        and body = "io_raise (Exception ''KeyError'' ''GUID'') :: unit io"]
      w(2) g1 g2 g3
    by (simp add: io_raise_def)
  show ?thesis using m x by blast
qed


end

